theory Spec2Isabelle
  imports Complex_Main
begin

unbundle bit_operations_syntax

section \<open>Numbers, faults and arrays\<close>

text \<open>
  The terrain code is C++ on Unreal Engine. Its \<^verbatim>\<open>float\<close> and \<^verbatim>\<open>FVector\<close> values are
  modelled by exact reals: rounding, overflow to infinity and NaN inputs are outside the
  model. A float division whose divisor the source does not guard is a branch of the model
  of its own (\<open>fdiv\<close> returns \<open>Inl NonFinite\<close> where IEEE arithmetic would store NaN or an
  infinity), so no statement below rests on HOL's \<open>x / 0 = 0\<close>.

  \<^verbatim>\<open>int32\<close> values are mathematical integers; the linear voxel index and the size
  product of the consistency guard, where overflow could matter, are wrapped to 32 bits by
  \<open>i32\<close>.
\<close>

datatype fault =
    IndexOutOfRange   \<comment> \<open>a \<^verbatim>\<open>TArray\<close> element access outside \<open>[0, Num)\<close>\<close>
  | NonFinite         \<comment> \<open>a float division by zero (the source would produce NaN or Inf)\<close>
  | BadTableRead      \<comment> \<open>a lookup-table row that runs past its end or names an edge vertex never written\<close>
  | CheckFailed       \<comment> \<open>a failed \<^verbatim>\<open>check(...)\<close> assertion\<close>
  | InvalidObject     \<comment> \<open>a member call through a null or destroyed component pointer\<close>

definition bindE :: "fault + 'a \<Rightarrow> ('a \<Rightarrow> fault + 'b) \<Rightarrow> fault + 'b" where
  "bindE m f = (case m of Inl e \<Rightarrow> Inl e | Inr v \<Rightarrow> f v)"

text \<open>A \<^verbatim>\<open>for\<close> loop over the index list \<open>is\<close> whose body may fault; the state is threaded.\<close>

fun forE :: "'i list \<Rightarrow> ('i \<Rightarrow> 's \<Rightarrow> fault + 's) \<Rightarrow> 's \<Rightarrow> fault + 's" where
  "forE [] body s = Inr s"
| "forE (i # is) body s = (case body i s of Inl e \<Rightarrow> Inl e | Inr s' \<Rightarrow> forE is body s')"

fun mapE :: "('a \<Rightarrow> fault + 'b) \<Rightarrow> 'a list \<Rightarrow> fault + 'b list" where
  "mapE f [] = Inr []"
| "mapE f (a # as) =
     (case f a of Inl e \<Rightarrow> Inl e
      | Inr b \<Rightarrow> (case mapE f as of Inl e \<Rightarrow> Inl e | Inr bs \<Rightarrow> Inr (b # bs)))"

definition i32 :: "int \<Rightarrow> int" where
  "i32 v = (v + 2147483648) mod 4294967296 - 2147483648"

definition fdiv :: "real \<Rightarrow> real \<Rightarrow> fault + real" where
  "fdiv a b = (if b = 0 then Inl NonFinite else Inr (a / b))"

text \<open>\<^verbatim>\<open>Array[i]\<close> on a \<^verbatim>\<open>TArray\<close>: read and write, bounds made explicit.\<close>

definition rd :: "'a list \<Rightarrow> int \<Rightarrow> fault + 'a" where
  "rd xs i = (if 0 \<le> i \<and> i < int (length xs) then Inr (xs ! nat i) else Inl IndexOutOfRange)"

definition wr :: "'a list \<Rightarrow> int \<Rightarrow> 'a \<Rightarrow> fault + 'a list" where
  "wr xs i v = (if 0 \<le> i \<and> i < int (length xs) then Inr (xs[nat i := v]) else Inl IndexOutOfRange)"

section \<open>Engine collaborators\<close>

text \<open>
  The functions of this section belong to Unreal Engine (\<^verbatim>\<open>FMath\<close>, \<^verbatim>\<open>FVector\<close>,
  \<^verbatim>\<open>FTransform\<close>), not to the repository; they follow the engine's definitions.
\<close>

definition KINDA_SMALL_NUMBER :: real where
  "KINDA_SMALL_NUMBER = 1 / 10000"

definition SMALL_NUMBER :: real where
  "SMALL_NUMBER = 1 / 100000000"

definition IsNearlyZero :: "real \<Rightarrow> bool" where
  "IsNearlyZero v = (\<bar>v\<bar> \<le> SMALL_NUMBER)"

definition Clamp :: "int \<Rightarrow> int \<Rightarrow> int \<Rightarrow> int" where
  "Clamp v lo hi = max (min v hi) lo"

definition RoundToInt :: "real \<Rightarrow> int" where
  "RoundToInt f = \<lfloor>f + 1 / 2\<rfloor>"

definition CeilToInt :: "real \<Rightarrow> int" where
  "CeilToInt f = \<lceil>f\<rceil>"

definition FloorToInt :: "real \<Rightarrow> int" where
  "FloorToInt f = \<lfloor>f\<rfloor>"

datatype FVector = FVector (X: real) (Y: real) (Z: real)

definition ZeroVector :: FVector where
  "ZeroVector = FVector 0 0 0"

definition UpVector :: FVector where
  "UpVector = FVector 0 0 1"

definition vadd :: "FVector \<Rightarrow> FVector \<Rightarrow> FVector" where
  "vadd a b = FVector (X a + X b) (Y a + Y b) (Z a + Z b)"

definition vsub :: "FVector \<Rightarrow> FVector \<Rightarrow> FVector" where
  "vsub a b = FVector (X a - X b) (Y a - Y b) (Z a - Z b)"

definition vscale :: "real \<Rightarrow> FVector \<Rightarrow> FVector" where
  "vscale s a = FVector (s * X a) (s * Y a) (s * Z a)"

definition vmul :: "FVector \<Rightarrow> FVector \<Rightarrow> FVector" where
  "vmul a b = FVector (X a * X b) (Y a * Y b) (Z a * Z b)"

definition CrossProduct :: "FVector \<Rightarrow> FVector \<Rightarrow> FVector" where
  "CrossProduct a b =
     FVector (Y a * Z b - Z a * Y b) (Z a * X b - X a * Z b) (X a * Y b - Y a * X b)"

definition SizeSquared :: "FVector \<Rightarrow> real" where
  "SizeSquared a = X a * X a + Y a * Y a + Z a * Z a"

definition Dist :: "FVector \<Rightarrow> FVector \<Rightarrow> real" where
  "Dist a b = sqrt (SizeSquared (vsub b a))"

definition GetAbsMax :: "FVector \<Rightarrow> real" where
  "GetAbsMax a = max (max \<bar>X a\<bar> \<bar>Y a\<bar>) \<bar>Z a\<bar>"

text \<open>\<^verbatim>\<open>FVector::Normalize\<close>: the success flag and the vector afterwards.\<close>

definition Normalize :: "FVector \<Rightarrow> bool \<times> FVector" where
  "Normalize a =
     (let SquareSum = SizeSquared a in
      if SquareSum > SMALL_NUMBER then (True, vscale (1 / sqrt SquareSum) a) else (False, a))"

definition GetSafeNormal :: "FVector \<Rightarrow> FVector" where
  "GetSafeNormal a =
     (let SquareSum = SizeSquared a in
      if SquareSum = 1 then a
      else if SquareSum < SMALL_NUMBER then ZeroVector
      else vscale (1 / sqrt SquareSum) a)"

record FTransform =
  Translation :: FVector
  UnrotateVector :: "FVector \<Rightarrow> FVector"
  Scale3D :: FVector

definition SafeReciprocal :: "real \<Rightarrow> real" where
  "SafeReciprocal s = (if \<bar>s\<bar> \<le> SMALL_NUMBER then 0 else 1 / s)"

definition InverseTransformPosition :: "FTransform \<Rightarrow> FVector \<Rightarrow> FVector" where
  "InverseTransformPosition T V =
     vmul (UnrotateVector T (vsub V (Translation T)))
          (FVector (SafeReciprocal (X (Scale3D T))) (SafeReciprocal (Y (Scale3D T)))
                   (SafeReciprocal (Z (Scale3D T))))"

text \<open>\<^verbatim>\<open>FMath::SphereAABBIntersection\<close> on a sphere and a box given by its corners.\<close>

definition axisGap :: "real \<Rightarrow> real \<Rightarrow> real \<Rightarrow> real" where
  "axisGap c lo hi = (if c < lo then (c - lo) * (c - lo) else if c > hi then (c - hi) * (c - hi) else 0)"

definition SphereAABBIntersection :: "FVector \<Rightarrow> real \<Rightarrow> FVector \<Rightarrow> FVector \<Rightarrow> bool" where
  "SphereAABBIntersection Center W BoxMin BoxMax =
     (axisGap (X Center) (X BoxMin) (X BoxMax) + axisGap (Y Center) (Y BoxMin) (Y BoxMax)
        + axisGap (Z Center) (Z BoxMin) (Z BoxMax) \<le> W * W)"

section \<open>The terrain chunk (\<^verbatim>\<open>UProceduralTerrain\<close>)\<close>

record FMeshSection =
  Vertices :: "FVector list"
  Triangles :: "int list"
  Normals :: "FVector list"

record UProceduralTerrain =
  CurrentSize :: int
  CurrentScale :: real
  CurrentIsoLevel :: real
  Density :: "real list"
  ChunkCoords :: "int \<times> int \<times> int"
  MeshSections :: "FMeshSection list"
  ComponentTransform :: FTransform
  Name :: string

text \<open>
  \<^verbatim>\<open>ClearAllMeshSections\<close> and \<^verbatim>\<open>CreateMeshSection(0, ...)\<close> of the procedural mesh
  component the chunk extends.
\<close>

definition ClearAllMeshSections :: "UProceduralTerrain \<Rightarrow> UProceduralTerrain" where
  "ClearAllMeshSections c = c\<lparr>MeshSections := []\<rparr>"

definition CreateMeshSection0 :: "FMeshSection \<Rightarrow> UProceduralTerrain \<Rightarrow> UProceduralTerrain" where
  "CreateMeshSection0 m c =
     c\<lparr>MeshSections := (case MeshSections c of [] \<Rightarrow> [m] | _ # rest \<Rightarrow> m # rest)\<rparr>"

definition GetIndex :: "int \<Rightarrow> int \<Rightarrow> int \<Rightarrow> int \<Rightarrow> int" where
  "GetIndex Size x y z = i32 (i32 (x + i32 (y * Size)) + i32 (i32 (z * Size) * Size))"

subsection \<open>\<^verbatim>\<open>RebuildMeshFromCurrentDensity\<close>\<close>

definition SampleDensity :: "real list \<Rightarrow> int \<Rightarrow> int \<Rightarrow> int \<Rightarrow> int \<Rightarrow> fault + real" where
  "SampleDensity D Size sx sy sz =
     rd D (GetIndex Size (Clamp sx 0 (Size - 1)) (Clamp sy 0 (Size - 1)) (Clamp sz 0 (Size - 1)))"

text \<open>The body of the gradient loop at voxel \<open>(x, y, z)\<close>; the state is the gradient array.\<close>

definition gradientVoxel ::
  "real list \<Rightarrow> int \<Rightarrow> real \<Rightarrow> int \<Rightarrow> int \<Rightarrow> int \<Rightarrow> FVector list \<Rightarrow> fault + FVector list" where
  "gradientVoxel D Size Scale z y x Gradients =
     bindE (SampleDensity D Size (x + 1) y z) (\<lambda>xp.
     bindE (SampleDensity D Size (x - 1) y z) (\<lambda>xm.
     bindE (SampleDensity D Size x (y + 1) z) (\<lambda>yp.
     bindE (SampleDensity D Size x (y - 1) z) (\<lambda>ym.
     bindE (SampleDensity D Size x y (z + 1)) (\<lambda>zp.
     bindE (SampleDensity D Size x y (z - 1)) (\<lambda>zm.
       let Gradient = FVector (xp - xm) (yp - ym) (zp - zm);
           Gradient = (if \<not> IsNearlyZero Scale
                       then FVector (X Gradient / Scale) (Y Gradient / Scale) (Z Gradient / Scale)
                       else Gradient)
       in wr Gradients (GetIndex Size x y z) Gradient))))))"

definition computeGradients :: "real list \<Rightarrow> int \<Rightarrow> real \<Rightarrow> fault + FVector list" where
  "computeGradients D Size Scale =
     forE [0..Size - 1] (\<lambda>z.
       forE [0..Size - 1] (\<lambda>y.
         forE [0..Size - 1] (\<lambda>x. gradientVoxel D Size Scale z y x)))
       (replicate (length D) ZeroVector)"

record FVertexInterpResult =
  Position :: FVector
  Normal :: FVector

definition VertexInterp ::
  "real \<Rightarrow> FVector \<Rightarrow> FVector \<Rightarrow> real \<Rightarrow> real \<Rightarrow> FVector \<Rightarrow> FVector \<Rightarrow> fault + FVertexInterpResult" where
  "VertexInterp IsoLevel p1 p2 valp1 valp2 n1 n2 =
     (if \<bar>IsoLevel - valp1\<bar> < KINDA_SMALL_NUMBER
        then Inr \<lparr>Position = p1, Normal = GetSafeNormal n1\<rparr>
      else if \<bar>IsoLevel - valp2\<bar> < KINDA_SMALL_NUMBER
        then Inr \<lparr>Position = p2, Normal = GetSafeNormal n2\<rparr>
      else if \<bar>valp1 - valp2\<bar> < KINDA_SMALL_NUMBER
        then Inr \<lparr>Position = p1, Normal = GetSafeNormal n1\<rparr>
      else
        bindE (fdiv (IsoLevel - valp1) (valp2 - valp1)) (\<lambda>mu.
          let Pos = vadd p1 (vscale mu (vsub p2 p1));
              Nrm = vadd n1 (vscale mu (vsub n2 n1));
              Nrm = (if \<not> fst (Normalize Nrm) then UpVector else snd (Normalize Nrm))
          in Inr \<lparr>Position = Pos, Normal = Nrm\<rparr>))"

definition CornerOffsets :: "(int \<times> int \<times> int) list" where
  "CornerOffsets =
     [(0, 0, 0), (1, 0, 0), (1, 1, 0), (0, 1, 0), (0, 0, 1), (1, 0, 1), (1, 1, 1), (0, 1, 1)]"

text \<open>One cube corner: its position \<open>p[i]\<close>, density \<open>val[i]\<close> and normalised gradient \<open>grad[i]\<close>.\<close>

fun fetchCorner ::
  "real list \<Rightarrow> FVector list \<Rightarrow> int \<Rightarrow> real \<Rightarrow> int \<Rightarrow> int \<Rightarrow> int \<Rightarrow> int \<times> int \<times> int
     \<Rightarrow> fault + FVector \<times> real \<times> FVector" where
  "fetchCorner D Gradients Size Scale x y z (dx, dy, dz) =
     bindE (rd D (GetIndex Size (x + dx) (y + dy) (z + dz))) (\<lambda>v.
     bindE (rd Gradients (GetIndex Size (x + dx) (y + dy) (z + dz))) (\<lambda>g.
       Inr (FVector (real_of_int (x + dx) * Scale) (real_of_int (y + dy) * Scale)
                    (real_of_int (z + dz) * Scale),
            v, GetSafeNormal g)))"

definition CubeIndex :: "real \<Rightarrow> real list \<Rightarrow> nat" where
  "CubeIndex IsoLevel val =
     (if val ! 0 < IsoLevel then 1 else 0) OR (if val ! 1 < IsoLevel then 2 else 0)
     OR (if val ! 2 < IsoLevel then 4 else 0) OR (if val ! 3 < IsoLevel then 8 else 0)
     OR (if val ! 4 < IsoLevel then 16 else 0) OR (if val ! 5 < IsoLevel then 32 else 0)
     OR (if val ! 6 < IsoLevel then 64 else 0) OR (if val ! 7 < IsoLevel then 128 else 0)"

text \<open>
  The twelve guarded assignments to \<open>vertList\<close>: the mask tested on the cube's edge word
  and the two corners the edge joins, in the order of the source.
\<close>

definition EdgeCorners :: "(int \<times> nat \<times> nat) list" where
  "EdgeCorners =
     [(1, 0, 1), (2, 1, 2), (4, 2, 3), (8, 3, 0), (16, 4, 5), (32, 5, 6), (64, 6, 7),
      (128, 7, 4), (256, 0, 4), (512, 1, 5), (1024, 2, 6), (2048, 3, 7)]"

fun vertSlot ::
  "real \<Rightarrow> int \<Rightarrow> (FVector \<times> real \<times> FVector) list \<Rightarrow> int \<times> nat \<times> nat
     \<Rightarrow> fault + FVertexInterpResult option" where
  "vertSlot IsoLevel edges cs (flag, a, b) =
     (if edges AND flag \<noteq> 0
      then bindE (VertexInterp IsoLevel (fst (cs ! a)) (fst (cs ! b))
                    (fst (snd (cs ! a))) (fst (snd (cs ! b)))
                    (snd (snd (cs ! a))) (snd (snd (cs ! b))))
                 (\<lambda>r. Inr (Some r))
      else Inr None)"

definition buildVertList ::
  "real \<Rightarrow> int \<Rightarrow> (FVector \<times> real \<times> FVector) list \<Rightarrow> fault + FVertexInterpResult option list" where
  "buildVertList IsoLevel edges cs = mapE (vertSlot IsoLevel edges cs) EdgeCorners"

text \<open>\<open>vertList[k]\<close> for a table entry \<open>k\<close>: a slot no guarded assignment wrote holds no value.\<close>

definition vertAt :: "FVertexInterpResult option list \<Rightarrow> int \<Rightarrow> fault + FVertexInterpResult" where
  "vertAt vertList k =
     (if 0 \<le> k \<and> k < int (length vertList)
      then (case vertList ! nat k of None \<Rightarrow> Inl BadTableRead | Some r \<Rightarrow> Inr r)
      else Inl BadTableRead)"

definition AddNormal :: "FVector \<Rightarrow> FVector \<Rightarrow> FVector" where
  "AddNormal FaceNormal Candidate =
     (if \<not> fst (Normalize Candidate) then FaceNormal else snd (Normalize Candidate))"

definition emitTriangle ::
  "FVertexInterpResult \<Rightarrow> FVertexInterpResult \<Rightarrow> FVertexInterpResult \<Rightarrow> FMeshSection \<Rightarrow> FMeshSection" where
  "emitTriangle r0 r1 r2 m =
     (let v0 = Position r0; v1 = Position r1; v2 = Position r2;
          BaseIndex = int (length (Vertices m));
          FaceNormal = GetSafeNormal (CrossProduct (vsub v1 v0) (vsub v2 v0))
      in \<lparr>Vertices = Vertices m @ [v0, v1, v2],
          Triangles = Triangles m @ [BaseIndex, BaseIndex + 1, BaseIndex + 2],
          Normals = Normals m @ [AddNormal FaceNormal (Normal r0), AddNormal FaceNormal (Normal r1),
                                 AddNormal FaceNormal (Normal r2)]\<rparr>)"

text \<open>
  The triangle loop \<^verbatim>\<open>for (i = 0; triTable[cubeIndex][i] != -1; i += 3)\<close> over the rest of
  the table row from position \<open>i\<close> on.
\<close>

fun emitTriangles :: "FVertexInterpResult option list \<Rightarrow> int list \<Rightarrow> FMeshSection \<Rightarrow> fault + FMeshSection" where
  "emitTriangles vertList [] m = Inl BadTableRead"
| "emitTriangles vertList [a] m = (if a = - 1 then Inr m else Inl BadTableRead)"
| "emitTriangles vertList [a, b] m = (if a = - 1 then Inr m else Inl BadTableRead)"
| "emitTriangles vertList (a # b # c # row) m =
     (if a = - 1 then Inr m
      else bindE (vertAt vertList a) (\<lambda>r0.
           bindE (vertAt vertList b) (\<lambda>r1.
           bindE (vertAt vertList c) (\<lambda>r2.
             emitTriangles vertList row (emitTriangle r0 r1 r2 m)))))"

text \<open>
  The body of the cube loop. \<open>edgeTable\<close> and \<open>triTable\<close> are the two lookup tables of
  \<^verbatim>\<open>MarchingCubesTables.h\<close>, a header that is not among the sources: they are parameters.
\<close>

definition marchCube ::
  "(nat \<Rightarrow> int) \<Rightarrow> (nat \<Rightarrow> int list) \<Rightarrow> real list \<Rightarrow> FVector list \<Rightarrow> int \<Rightarrow> real \<Rightarrow> real
     \<Rightarrow> int \<Rightarrow> int \<Rightarrow> int \<Rightarrow> FMeshSection \<Rightarrow> fault + FMeshSection" where
  "marchCube edgeTable triTable D Gradients Size Scale IsoLevel z y x m =
     bindE (mapE (fetchCorner D Gradients Size Scale x y z) CornerOffsets) (\<lambda>cs.
       let cubeIndex = CubeIndex IsoLevel (map (\<lambda>c. fst (snd c)) cs) in
       if edgeTable cubeIndex = 0 then Inr m
       else bindE (buildVertList IsoLevel (edgeTable cubeIndex) cs) (\<lambda>vertList.
              emitTriangles vertList (triTable cubeIndex) m))"

definition marchCubes ::
  "(nat \<Rightarrow> int) \<Rightarrow> (nat \<Rightarrow> int list) \<Rightarrow> real list \<Rightarrow> FVector list \<Rightarrow> int \<Rightarrow> real \<Rightarrow> real
     \<Rightarrow> fault + FMeshSection" where
  "marchCubes edgeTable triTable D Gradients Size Scale IsoLevel =
     forE [0..Size - 2] (\<lambda>z.
       forE [0..Size - 2] (\<lambda>y.
         forE [0..Size - 2] (\<lambda>x.
           marchCube edgeTable triTable D Gradients Size Scale IsoLevel z y x)))
       \<lparr>Vertices = [], Triangles = [], Normals = []\<rparr>"

definition RebuildMeshFromCurrentDensity ::
  "(nat \<Rightarrow> int) \<Rightarrow> (nat \<Rightarrow> int list) \<Rightarrow> UProceduralTerrain \<Rightarrow> fault + UProceduralTerrain" where
  "RebuildMeshFromCurrentDensity edgeTable triTable c =
     (let Size = CurrentSize c; Scale = CurrentScale c; IsoLevel = CurrentIsoLevel c in
      if Size \<le> 1 \<or> int (length (Density c)) \<noteq> i32 (i32 (Size * Size) * Size)
      then Inr (ClearAllMeshSections c)
      else
        bindE (computeGradients (Density c) Size Scale) (\<lambda>Gradients.
        bindE (marchCubes edgeTable triTable (Density c) Gradients Size Scale IsoLevel) (\<lambda>m.
          Inr (CreateMeshSection0 m (ClearAllMeshSections c)))))"

subsection \<open>\<^verbatim>\<open>BuildDensityField\<close>\<close>

text \<open>\<^verbatim>\<open>TArray<float>::SetNum\<close>: kept elements stay, new ones are zero; a negative count is refused.\<close>

definition SetNum :: "real list \<Rightarrow> int \<Rightarrow> fault + real list" where
  "SetNum xs n =
     (if n < 0 then Inl CheckFailed
      else Inr (take (nat n) xs @ replicate (nat n - length xs) 0))"

definition GetComponentLocation :: "UProceduralTerrain \<Rightarrow> FVector" where
  "GetComponentLocation c = Translation (ComponentTransform c)"

text \<open>
  The body of the population loop at cell \<open>(x, y, z)\<close>. \<open>noise\<close> is the engine's
  \<^verbatim>\<open>FMath::PerlinNoise3D\<close>, a parameter.
\<close>

definition buildVoxel ::
  "(FVector \<Rightarrow> real) \<Rightarrow> FVector \<Rightarrow> int \<Rightarrow> real \<Rightarrow> real \<Rightarrow> real \<Rightarrow> real \<Rightarrow> int \<Rightarrow> int \<Rightarrow> int
     \<Rightarrow> real list \<Rightarrow> fault + real list" where
  "buildVoxel noise ChunkWorldOrigin Size Scale NoiseScale HeightBias NoiseStrength z y x D =
     (let WorldPos = vadd ChunkWorldOrigin
                       (FVector (real_of_int x * Scale) (real_of_int y * Scale) (real_of_int z * Scale));
          Noise = noise (vscale NoiseScale WorldPos);
          DensityValue = (real_of_int z - HeightBias) + (Noise * NoiseStrength);
          Index = GetIndex Size x y z
      in if \<not> (Index \<ge> 0 \<and> Index < int (length D)) then Inl CheckFailed
         else bindE (wr D Index DensityValue) (\<lambda>D1. wr D1 (GetIndex Size x y z) DensityValue))"

definition BuildDensityField ::
  "(FVector \<Rightarrow> real) \<Rightarrow> UProceduralTerrain \<Rightarrow> int \<Rightarrow> real \<Rightarrow> real \<Rightarrow> real \<Rightarrow> real
     \<Rightarrow> fault + UProceduralTerrain" where
  "BuildDensityField noise c Size Scale NoiseScale HeightBias NoiseStrength =
     bindE (SetNum (Density c) (i32 (i32 (Size * Size) * Size))) (\<lambda>D0.
       let ChunkWorldOrigin = GetComponentLocation c in
       if int (length D0) \<noteq> i32 (i32 (Size * Size) * Size) then Inl CheckFailed
       else if \<not> Size > 0 then Inl CheckFailed
       else
         bindE (forE [0..Size - 1] (\<lambda>z.
                  forE [0..Size - 1] (\<lambda>y.
                    forE [0..Size - 1] (\<lambda>x.
                      buildVoxel noise ChunkWorldOrigin Size Scale NoiseScale HeightBias NoiseStrength z y x)))
                  D0) (\<lambda>D1.
           Inr (c\<lparr>CurrentSize := Size, CurrentScale := Scale, Density := D1\<rparr>)))"

subsection \<open>\<^verbatim>\<open>DigSphere\<close>\<close>

text \<open>
  The body of the dig loop at voxel \<open>(x, y, z)\<close>, shared in shape by \<^verbatim>\<open>DigSphere\<close> and the
  world's \<^verbatim>\<open>DigAt\<close>: \<open>Center\<close> is the point distances are measured from.
\<close>

definition digVoxel ::
  "int \<Rightarrow> FVector \<Rightarrow> int \<Rightarrow> real \<Rightarrow> int \<Rightarrow> int \<Rightarrow> int \<Rightarrow> real list \<Rightarrow> fault + real list" where
  "digVoxel Size Center RadiusVoxels Strength z y x D =
     (if x < 0 \<or> y < 0 \<or> z < 0 \<or> x \<ge> Size \<or> y \<ge> Size \<or> z \<ge> Size then Inr D
      else
        let VoxelPos = FVector (real_of_int x) (real_of_int y) (real_of_int z);
            Dst = Dist VoxelPos Center
        in if Dst \<le> real_of_int RadiusVoxels
           then (let Idx = GetIndex Size x y z in
                 bindE (fdiv Dst (real_of_int RadiusVoxels)) (\<lambda>q.
                 bindE (rd D Idx) (\<lambda>v. wr D Idx (v + Strength * (1 - q)))))
           else Inr D)"

definition digLoops ::
  "int \<Rightarrow> FVector \<Rightarrow> int \<Rightarrow> int \<Rightarrow> int \<Rightarrow> int \<Rightarrow> real \<Rightarrow> real list \<Rightarrow> fault + real list" where
  "digLoops Size Center XCenter YCenter ZCenter RadiusVoxels Strength D =
     forE [ZCenter - RadiusVoxels..ZCenter + RadiusVoxels] (\<lambda>z.
       forE [YCenter - RadiusVoxels..YCenter + RadiusVoxels] (\<lambda>y.
         forE [XCenter - RadiusVoxels..XCenter + RadiusVoxels] (\<lambda>x.
           digVoxel Size Center RadiusVoxels Strength z y x))) D"

definition DigSphere ::
  "(nat \<Rightarrow> int) \<Rightarrow> (nat \<Rightarrow> int list) \<Rightarrow> UProceduralTerrain \<Rightarrow> FVector \<Rightarrow> real \<Rightarrow> real
     \<Rightarrow> fault + UProceduralTerrain" where
  "DigSphere edgeTable triTable c WorldPosition Radius Strength =
     (if length (Density c) = 0 \<or> CurrentSize c \<le> 0 \<or> IsNearlyZero (CurrentScale c) then Inr c
      else
        let LocalPositionUnits = InverseTransformPosition (ComponentTransform c) WorldPosition;
            LocalVoxelPosition = vscale (1 / CurrentScale c) LocalPositionUnits;
            XCenter = RoundToInt (X LocalVoxelPosition);
            YCenter = RoundToInt (Y LocalVoxelPosition);
            ZCenter = RoundToInt (Z LocalVoxelPosition);
            ComponentScale = Scale3D (ComponentTransform c);
            UniformScale = max (GetAbsMax ComponentScale) KINDA_SMALL_NUMBER;
            LocalRadiusUnits = Radius / UniformScale;
            RadiusVoxels = CeilToInt (LocalRadiusUnits / CurrentScale c)
        in bindE (digLoops (CurrentSize c) LocalVoxelPosition XCenter YCenter ZCenter
                    RadiusVoxels Strength (Density c)) (\<lambda>D1.
             RebuildMeshFromCurrentDensity edgeTable triTable (c\<lparr>Density := D1\<rparr>)))"

subsection \<open>\<^verbatim>\<open>LoadDensityFromJSON\<close>\<close>

text \<open>
  What reading and parsing the file gives: no file, text that is not JSON, or an object
  with its \<open>Size\<close>, \<open>Scale\<close> and \<open>IsoLevel\<close> numbers and, when present, its \<open>Density\<close> array.
\<close>

record FJsonObject =
  SizeField :: int
  ScaleField :: real
  IsoLevelField :: real
  DensityField :: "real list option"

datatype FileRead = NoFile | NotJson | Parsed FJsonObject

definition LoadDensityFromJSON ::
  "(nat \<Rightarrow> int) \<Rightarrow> (nat \<Rightarrow> int list) \<Rightarrow> FileRead \<Rightarrow> UProceduralTerrain \<Rightarrow> fault + UProceduralTerrain" where
  "LoadDensityFromJSON edgeTable triTable file c =
     (case file of
        NoFile \<Rightarrow> Inr c
      | NotJson \<Rightarrow> Inr c
      | Parsed JsonObject \<Rightarrow>
          (let c1 = c\<lparr>CurrentSize := SizeField JsonObject,
                      CurrentScale := ScaleField JsonObject,
                      CurrentIsoLevel := IsoLevelField JsonObject\<rparr>
           in case DensityField JsonObject of
                None \<Rightarrow> Inr c1
              | Some DensityArray \<Rightarrow>
                  RebuildMeshFromCurrentDensity edgeTable triTable (c1\<lparr>Density := DensityArray\<rparr>)))"

section \<open>The chunk world (\<^verbatim>\<open>AProceduralTerrainWorld\<close>)\<close>

text \<open>
  What the world's code takes from its surroundings: the two marching-cubes tables, the
  engine's noise function, the project's save directory and the files under it.
\<close>

record Engine =
  edgeTable :: "nat \<Rightarrow> int"
  triTable :: "nat \<Rightarrow> int list"
  PerlinNoise3D :: "FVector \<Rightarrow> real"
  ProjectSavedDir :: string
  Files :: "string \<Rightarrow> FileRead"

definition FileExists :: "Engine \<Rightarrow> string \<Rightarrow> bool" where
  "FileExists env path = (Files env path \<noteq> NoFile)"

definition PathAppend :: "string \<Rightarrow> string \<Rightarrow> string" where
  "PathAppend a b = (if a \<noteq> [] \<and> last a \<noteq> CHR ''/'' then a @ ''/'' @ b else a @ b)"

fun showNat :: "nat \<Rightarrow> string" where
  "showNat n = (if n < 10 then [char_of (48 + n)] else showNat (n div 10) @ [char_of (48 + n mod 10)])"

definition showInt :: "int \<Rightarrow> string" where
  "showInt i = (if i < 0 then ''-'' @ showNat (nat (- i)) else showNat (nat i))"

text \<open>\<^verbatim>\<open>FString::Printf(TEXT("Chunk_%d_%d_%d"), x, y, z)\<close> and the chunk's save file name.\<close>

definition ChunkName :: "int \<Rightarrow> int \<Rightarrow> int \<Rightarrow> string" where
  "ChunkName x y z = ''Chunk_'' @ showInt x @ ''_'' @ showInt y @ ''_'' @ showInt z"

definition ChunkFileName :: "string \<Rightarrow> string" where
  "ChunkFileName nm = ''TerrainChunks_'' @ nm @ ''.json''"

text \<open>
  The world's members that its code reads or writes. \<open>Chunks\<close> and \<open>PersistentChunks\<close>
  hold component pointers: an address into \<open>Objects\<close>, where a destroyed component has no
  entry. \<open>PoolTasks\<close> are the density jobs handed to the thread pool and not yet run,
  \<open>GameThreadTasks\<close> the mesh jobs queued back to the game thread, each naming the chunk its
  lambda captured.
\<close>

record AProceduralTerrainWorld =
  ChunkSize :: int
  TerrainScale :: real
  NoiseScale :: real
  HeightBias :: real
  NoiseStrength :: real
  ChunksX :: int
  ChunksY :: int
  ChunksZ :: int
  Chunks :: "nat list"
  StreamRadius :: int
  PersistentChunks :: "nat list"
  LastPlayerChunkCenter :: FVector
  bIsGenerating :: bool
  CompletedChunks :: int
  Objects :: "nat \<Rightarrow> UProceduralTerrain option"
  NextObject :: nat
  PoolTasks :: "nat list"
  GameThreadTasks :: "nat list"

text \<open>
  \<^verbatim>\<open>NewObject<UProceduralTerrain>\<close>, \<^verbatim>\<open>SetRelativeLocation(Offset)\<close> and the assignment of
  \<open>ChunkCoords\<close>: a fresh component with the header's member defaults. The actor declares no
  root component, so the chunk's world transform is the translation by \<open>Offset\<close>.
\<close>

definition ChunkOffset :: "AProceduralTerrainWorld \<Rightarrow> int \<times> int \<times> int \<Rightarrow> FVector" where
  "ChunkOffset w coords =
     (case coords of (x, y, z) \<Rightarrow>
        vscale (TerrainScale w)
          (vscale (real_of_int (ChunkSize w - 1)) (FVector (real_of_int x) (real_of_int y) (real_of_int z))))"

definition NewChunk :: "AProceduralTerrainWorld \<Rightarrow> int \<times> int \<times> int \<Rightarrow> UProceduralTerrain" where
  "NewChunk w coords =
     \<lparr>CurrentSize = 0, CurrentScale = 1, CurrentIsoLevel = 0, Density = [],
      ChunkCoords = coords, MeshSections = [],
      ComponentTransform = \<lparr>Translation = ChunkOffset w coords, UnrotateVector = (\<lambda>v. v),
                             Scale3D = FVector 1 1 1\<rparr>,
      Name = (case coords of (x, y, z) \<Rightarrow> ChunkName x y z)\<rparr>"

text \<open>A member call \<open>Chunk->f(...)\<close> through the pointer \<open>a\<close>.\<close>

definition onChunk ::
  "nat \<Rightarrow> (UProceduralTerrain \<Rightarrow> fault + UProceduralTerrain) \<Rightarrow> AProceduralTerrainWorld
     \<Rightarrow> fault + AProceduralTerrainWorld" where
  "onChunk a f w =
     (case Objects w a of
        None \<Rightarrow> Inl InvalidObject
      | Some c \<Rightarrow> bindE (f c) (\<lambda>c1. Inr (w\<lparr>Objects := (Objects w)(a \<mapsto> c1)\<rparr>)))"

subsection \<open>\<^verbatim>\<open>GenerateAllChunks\<close> and its two task bodies\<close>

definition GenerateAllChunks :: "AProceduralTerrainWorld \<Rightarrow> AProceduralTerrainWorld" where
  "GenerateAllChunks w =
     w\<lparr>PoolTasks := PoolTasks w @ filter (\<lambda>a. Objects w a \<noteq> None) (Chunks w)\<rparr>"

text \<open>The thread pool runs its \<open>k\<close>-th waiting job: the density build, then the hand-over.\<close>

definition runPoolTask ::
  "Engine \<Rightarrow> nat \<Rightarrow> AProceduralTerrainWorld \<Rightarrow> fault + AProceduralTerrainWorld" where
  "runPoolTask env k w =
     (if k < length (PoolTasks w)
      then (let a = PoolTasks w ! k in
            bindE (onChunk a (\<lambda>c. BuildDensityField (PerlinNoise3D env) c (ChunkSize w) (TerrainScale w)
                                     (NoiseScale w) (HeightBias w) (NoiseStrength w)) w) (\<lambda>w1.
              Inr (w1\<lparr>PoolTasks := take k (PoolTasks w1) @ drop (Suc k) (PoolTasks w1),
                      GameThreadTasks := GameThreadTasks w1 @ [a]\<rparr>)))
      else Inr w)"

text \<open>The game thread runs its oldest queued job: the mesh build and the completion count.\<close>

definition runGameThreadTask :: "Engine \<Rightarrow> AProceduralTerrainWorld \<Rightarrow> fault + AProceduralTerrainWorld" where
  "runGameThreadTask env w =
     (case GameThreadTasks w of
        [] \<Rightarrow> Inr w
      | a # rest \<Rightarrow>
          bindE (onChunk a (RebuildMeshFromCurrentDensity (edgeTable env) (triTable env)) w) (\<lambda>w1.
            let w2 = w1\<lparr>GameThreadTasks := rest, CompletedChunks := CompletedChunks w1 + 1\<rparr> in
            if CompletedChunks w2 \<ge> int (length (Chunks w2))
            then Inr (w2\<lparr>bIsGenerating := False\<rparr>)
            else Inr w2))"

subsection \<open>\<^verbatim>\<open>OnConstruction\<close>\<close>

definition destroyChunks :: "AProceduralTerrainWorld \<Rightarrow> AProceduralTerrainWorld" where
  "destroyChunks w =
     w\<lparr>Objects := (\<lambda>a. if a \<in> set (Chunks w) then None else Objects w a), Chunks := []\<rparr>"

definition createGridChunk :: "int \<Rightarrow> int \<Rightarrow> int \<Rightarrow> AProceduralTerrainWorld \<Rightarrow> AProceduralTerrainWorld" where
  "createGridChunk z y x w =
     w\<lparr>Objects := (Objects w)(NextObject w \<mapsto> NewChunk w (x, y, z)),
       NextObject := Suc (NextObject w),
       Chunks := Chunks w @ [NextObject w]\<rparr>"

definition createGrid :: "AProceduralTerrainWorld \<Rightarrow> AProceduralTerrainWorld" where
  "createGrid w =
     fold (\<lambda>z. fold (\<lambda>y. fold (\<lambda>x. createGridChunk z y x) [0..ChunksX w - 1]) [0..ChunksY w - 1])
       [0..ChunksZ w - 1] w"

text \<open>
  The load loop of \<^verbatim>\<open>OnConstruction\<close>; the state carries \<open>bLoadedExisting\<close>. The file
  tested and the file loaded are the same path under the save directory.
\<close>

definition loadExisting ::
  "Engine \<Rightarrow> nat \<Rightarrow> AProceduralTerrainWorld \<times> bool \<Rightarrow> fault + AProceduralTerrainWorld \<times> bool" where
  "loadExisting env a st =
     (case st of (w, bLoadedExisting) \<Rightarrow>
        (case Objects w a of
           None \<Rightarrow> Inl InvalidObject
         | Some c \<Rightarrow>
             let ChunkFile = PathAppend ''TerrainChunks'' (ChunkFileName (Name c));
                 FullPath = PathAppend (ProjectSavedDir env) ChunkFile
             in if FileExists env FullPath
                then bindE (onChunk a (\<lambda>c0.
                              bindE (LoadDensityFromJSON (edgeTable env) (triTable env)
                                       (Files env (PathAppend (ProjectSavedDir env) ChunkFile)) c0)
                                    (RebuildMeshFromCurrentDensity (edgeTable env) (triTable env))) w)
                           (\<lambda>w1. Inr (w1, True))
                else Inr (w, bLoadedExisting)))"

definition OnConstruction :: "Engine \<Rightarrow> AProceduralTerrainWorld \<Rightarrow> fault + AProceduralTerrainWorld" where
  "OnConstruction env w =
     (if bIsGenerating w then Inr w
      else
        let w1 = (destroyChunks w)\<lparr>bIsGenerating := True, CompletedChunks := 0\<rparr>;
            w2 = createGrid w1
        in bindE (forE (Chunks w2) (loadExisting env) (w2, False)) (\<lambda>st.
             if snd st then Inr ((fst st)\<lparr>bIsGenerating := False\<rparr>)
             else Inr (GenerateAllChunks (fst st))))"

subsection \<open>\<^verbatim>\<open>BeginPlay\<close>\<close>

text \<open>The load-or-generate loop of \<^verbatim>\<open>BeginPlay\<close> with its \<^verbatim>\<open>break\<close>.\<close>

fun beginPlayLoop ::
  "Engine \<Rightarrow> nat list \<Rightarrow> AProceduralTerrainWorld \<Rightarrow> fault + AProceduralTerrainWorld" where
  "beginPlayLoop env [] w = Inr w"
| "beginPlayLoop env (a # rest) w =
     (case Objects w a of
        None \<Rightarrow> Inl InvalidObject
      | Some c \<Rightarrow>
          let ChunkFile = PathAppend ''TerrainChunks'' (ChunkFileName (Name c));
              FullPath = PathAppend (ProjectSavedDir env) ChunkFile
          in if FileExists env FullPath
             then bindE (onChunk a (LoadDensityFromJSON (edgeTable env) (triTable env)
                                      (Files env (PathAppend (ProjectSavedDir env) ChunkFile))) w)
                        (beginPlayLoop env rest)
             else Inr (GenerateAllChunks w))"

definition BeginPlay :: "Engine \<Rightarrow> AProceduralTerrainWorld \<Rightarrow> fault + AProceduralTerrainWorld" where
  "BeginPlay env w =
     bindE (beginPlayLoop env (Chunks w) (w\<lparr>PersistentChunks := []\<rparr>)) (\<lambda>w1.
       Inr (w1\<lparr>PersistentChunks := PersistentChunks w1 @ Chunks w1\<rparr>))"

subsection \<open>\<^verbatim>\<open>DigAt\<close>\<close>

text \<open>The body of \<^verbatim>\<open>DigAt\<close>'s loop for one chunk that is not null.\<close>

definition digChunkAt ::
  "Engine \<Rightarrow> AProceduralTerrainWorld \<Rightarrow> FVector \<Rightarrow> real \<Rightarrow> real \<Rightarrow> UProceduralTerrain
     \<Rightarrow> fault + UProceduralTerrain" where
  "digChunkAt env w WorldPosition Radius Strength c =
     (if length (Density c) = 0 then Inr c
      else
        let ChunkMin = GetComponentLocation c;
            ChunkMax = vadd ChunkMin
                         (vscale (TerrainScale w)
                            (FVector (real_of_int (ChunkSize w - 1)) (real_of_int (ChunkSize w - 1))
                                     (real_of_int (ChunkSize w - 1))))
        in if \<not> SphereAABBIntersection WorldPosition Radius ChunkMin ChunkMax then Inr c
           else
             let LocalPosUnits = vsub WorldPosition (GetComponentLocation c) in
             bindE (fdiv 1 (TerrainScale w)) (\<lambda>RScale.
               let LocalVoxelPos = vscale RScale LocalPosUnits;
                   XCenter = RoundToInt (X LocalVoxelPos);
                   YCenter = RoundToInt (Y LocalVoxelPos);
                   ZCenter = RoundToInt (Z LocalVoxelPos)
               in bindE (fdiv Radius (TerrainScale w)) (\<lambda>rv.
                    let RadiusVoxels = CeilToInt rv in
                    bindE (digLoops (ChunkSize w)
                             (FVector (real_of_int XCenter) (real_of_int YCenter) (real_of_int ZCenter))
                             XCenter YCenter ZCenter RadiusVoxels Strength (Density c)) (\<lambda>D1.
                      RebuildMeshFromCurrentDensity (edgeTable env) (triTable env)
                        (c\<lparr>Density := D1\<rparr>)))))"

definition digAtStep ::
  "Engine \<Rightarrow> FVector \<Rightarrow> real \<Rightarrow> real \<Rightarrow> nat \<Rightarrow> AProceduralTerrainWorld \<Rightarrow> fault + AProceduralTerrainWorld" where
  "digAtStep env WorldPosition Radius Strength a w =
     (case Objects w a of
        None \<Rightarrow> Inr w
      | Some c \<Rightarrow> onChunk a (digChunkAt env w WorldPosition Radius Strength) w)"

definition DigAt ::
  "Engine \<Rightarrow> AProceduralTerrainWorld \<Rightarrow> FVector \<Rightarrow> real \<Rightarrow> real \<Rightarrow> fault + AProceduralTerrainWorld" where
  "DigAt env w WorldPosition Radius Strength =
     forE (Chunks w) (digAtStep env WorldPosition Radius Strength) w"

subsection \<open>\<^verbatim>\<open>UpdateStreamedChunks\<close>\<close>

definition DesiredChunks :: "AProceduralTerrainWorld \<Rightarrow> int \<times> int \<times> int \<Rightarrow> (int \<times> int \<times> int) list" where
  "DesiredChunks w pc =
     concat (map (\<lambda>dx. map (\<lambda>dy. (fst pc + dx, fst (snd pc) + dy, 0))
                          [- StreamRadius w..StreamRadius w])
                 [- StreamRadius w..StreamRadius w])"

text \<open>The removal loop at index \<open>i\<close>; it runs from the last index down to \<open>0\<close>.\<close>

definition removeDistantAt ::
  "(int \<times> int \<times> int) list \<Rightarrow> nat \<Rightarrow> AProceduralTerrainWorld \<Rightarrow> AProceduralTerrainWorld" where
  "removeDistantAt Desired i w =
     (let a = Chunks w ! i in
      case Objects w a of
        None \<Rightarrow> w
      | Some c \<Rightarrow>
          if ChunkCoords c \<notin> set Desired
          then (if a \<in> set (PersistentChunks w) then w
                else w\<lparr>Objects := (Objects w)(a := None),
                       Chunks := take i (Chunks w) @ drop (Suc i) (Chunks w)\<rparr>)
          else w)"

definition removeDistant :: "(int \<times> int \<times> int) list \<Rightarrow> AProceduralTerrainWorld \<Rightarrow> AProceduralTerrainWorld" where
  "removeDistant Desired w = fold (removeDistantAt Desired) (rev [0..<length (Chunks w)]) w"

definition chunkExistsAt :: "AProceduralTerrainWorld \<Rightarrow> int \<times> int \<times> int \<Rightarrow> bool" where
  "chunkExistsAt w Coords =
     list_ex (\<lambda>a. case Objects w a of None \<Rightarrow> False | Some c \<Rightarrow> ChunkCoords c = Coords) (Chunks w)"

text \<open>
  The creation loop for one desired coordinate. The file is tested under its full path
  and then loaded by \<^verbatim>\<open>LoadDensityFromJSON\<close>, which prefixes the save directory again.
\<close>

definition createMissing ::
  "Engine \<Rightarrow> int \<times> int \<times> int \<Rightarrow> AProceduralTerrainWorld \<Rightarrow> fault + AProceduralTerrainWorld" where
  "createMissing env Coords w =
     (if chunkExistsAt w Coords then Inr w
      else
        let c0 = NewChunk w Coords;
            ChunkFile = PathAppend (PathAppend (ProjectSavedDir env) ''TerrainChunks'')
                          (ChunkFileName (Name c0))
        in bindE (if FileExists env ChunkFile
                  then bindE (LoadDensityFromJSON (edgeTable env) (triTable env)
                                (Files env (PathAppend (ProjectSavedDir env) ChunkFile)) c0)
                             (RebuildMeshFromCurrentDensity (edgeTable env) (triTable env))
                  else bindE (BuildDensityField (PerlinNoise3D env) c0 (ChunkSize w) (TerrainScale w)
                                (NoiseScale w) (HeightBias w) (NoiseStrength w))
                             (RebuildMeshFromCurrentDensity (edgeTable env) (triTable env))) (\<lambda>c1.
             Inr (w\<lparr>Objects := (Objects w)(NextObject w \<mapsto> c1),
                    NextObject := Suc (NextObject w),
                    Chunks := Chunks w @ [NextObject w]\<rparr>)))"

text \<open>
  \<open>ChunkWorldSize\<close> is \<^verbatim>\<open>FVector(ChunkSize - 1) * TerrainScale\<close>; \<open>PlayerChunkCoords\<close> the
  cell the player stands in, its height pinned to 0; \<open>PlayerChunkCenter\<close> the vector the
  source stores under that name, \<^verbatim>\<open>FVector(PlayerChunkCoords) * ChunkWorldSize\<close>.
\<close>

definition ChunkWorldSize :: "AProceduralTerrainWorld \<Rightarrow> FVector" where
  "ChunkWorldSize w =
     vscale (TerrainScale w)
       (FVector (real_of_int (ChunkSize w - 1)) (real_of_int (ChunkSize w - 1))
                (real_of_int (ChunkSize w - 1)))"

definition PlayerChunkCoords ::
  "AProceduralTerrainWorld \<Rightarrow> FVector \<Rightarrow> fault + int \<times> int \<times> int" where
  "PlayerChunkCoords w PlayerPos =
     bindE (fdiv (X PlayerPos) (X (ChunkWorldSize w))) (\<lambda>qx.
     bindE (fdiv (Y PlayerPos) (Y (ChunkWorldSize w))) (\<lambda>qy.
       Inr (FloorToInt qx, FloorToInt qy, 0)))"

definition PlayerChunkCenter :: "AProceduralTerrainWorld \<Rightarrow> int \<times> int \<times> int \<Rightarrow> FVector" where
  "PlayerChunkCenter w pc =
     vmul (FVector (real_of_int (fst pc)) (real_of_int (fst (snd pc))) (real_of_int (snd (snd pc))))
          (ChunkWorldSize w)"

text \<open>
  \<open>Pawn\<close> is the pawn's location, \<open>None\<close> when there is no player controller or pawn.
\<close>

definition UpdateStreamedChunks ::
  "Engine \<Rightarrow> AProceduralTerrainWorld \<Rightarrow> FVector option \<Rightarrow> fault + AProceduralTerrainWorld" where
  "UpdateStreamedChunks env w Pawn =
     (case Pawn of
        None \<Rightarrow> Inr w
      | Some PlayerPos \<Rightarrow>
          bindE (PlayerChunkCoords w PlayerPos) (\<lambda>pc.
            if Dist (PlayerChunkCenter w pc) (LastPlayerChunkCenter w) < X (ChunkWorldSize w) * (1 / 2)
            then Inr w
            else
              let w1 = w\<lparr>LastPlayerChunkCenter := PlayerChunkCenter w pc\<rparr>;
                  Desired = DesiredChunks w1 pc;
                  w2 = removeDistant Desired w1
              in forE Desired (createMissing env) w2))"

subsection \<open>The world as a transition system\<close>

text \<open>
  What can happen to a world: the engine's callbacks, the two public operations, and the
  scheduler running one waiting task.
\<close>

datatype Event =
    EvOnConstruction
  | EvBeginPlay
  | EvUpdateStreamedChunks "FVector option"
  | EvDigAt FVector real real
  | EvPoolTask nat
  | EvGameThreadTask

fun step :: "Engine \<Rightarrow> Event \<Rightarrow> AProceduralTerrainWorld \<Rightarrow> fault + AProceduralTerrainWorld" where
  "step env EvOnConstruction w = OnConstruction env w"
| "step env EvBeginPlay w = BeginPlay env w"
| "step env (EvUpdateStreamedChunks Pawn) w = UpdateStreamedChunks env w Pawn"
| "step env (EvDigAt WorldPosition Radius Strength) w = DigAt env w WorldPosition Radius Strength"
| "step env (EvPoolTask k) w = runPoolTask env k w"
| "step env EvGameThreadTask w = runGameThreadTask env w"

definition run :: "Engine \<Rightarrow> Event list \<Rightarrow> AProceduralTerrainWorld \<Rightarrow> fault + AProceduralTerrainWorld" where
  "run env evs w = forE evs (step env) w"

section \<open>Example inputs\<close>

text \<open>Concrete chunks, records and tables at which the statements below are evaluated.\<close>

definition idTransform :: FTransform where
  "idTransform = \<lparr>Translation = FVector 0 0 0, UnrotateVector = (\<lambda>v. v), Scale3D = FVector 1 1 1\<rparr>"

definition blankChunk :: UProceduralTerrain where
  "blankChunk =
     \<lparr>CurrentSize = 0, CurrentScale = 1, CurrentIsoLevel = 0, Density = [],
      ChunkCoords = (0, 0, 0), MeshSections = [], ComponentTransform = idTransform,
      Name = ''Chunk_0_0_0''\<rparr>"

definition savedChunk :: UProceduralTerrain where
  "savedChunk =
     \<lparr>CurrentSize = 2, CurrentScale = 1, CurrentIsoLevel = 0,
      Density = [1, 1, 1, 1, 1, 1, 1, 1], ChunkCoords = (0, 0, 0),
      MeshSections = [\<lparr>Vertices = [], Triangles = [], Normals = []\<rparr>],
      ComponentTransform = idTransform, Name = ''Chunk_0_0_0''\<rparr>"

definition mismatchedRecord :: FJsonObject where
  "mismatchedRecord = \<lparr>SizeField = 3, ScaleField = 2, IsoLevelField = 1, DensityField = Some [5]\<rparr>"

definition upperChunk :: UProceduralTerrain where
  "upperChunk =
     \<lparr>CurrentSize = 0, CurrentScale = 1, CurrentIsoLevel = 0, Density = [],
      ChunkCoords = (0, 0, 1), MeshSections = [],
      ComponentTransform = \<lparr>Translation = FVector 0 0 1, UnrotateVector = (\<lambda>v. v),
                             Scale3D = FVector 1 1 1\<rparr>,
      Name = ''Chunk_0_0_1''\<rparr>"

text \<open>
  The value claim C6 states for the cell \<open>(x, y, z)\<close>, written from the specification's words and
  not from the code: \<open>(worldZ / scale - heightBias) + noise3D (worldPos * noiseFrequency) *
  noiseStrength\<close> with \<open>worldPos = origin + (x, y, z) * scale\<close>.
\<close>

definition specPopulateValue ::
  "(FVector \<Rightarrow> real) \<Rightarrow> FVector \<Rightarrow> real \<Rightarrow> real \<Rightarrow> real \<Rightarrow> real \<Rightarrow> int \<Rightarrow> int \<Rightarrow> int \<Rightarrow> real" where
  "specPopulateValue noise origin scale noiseFrequency heightBias noiseStrength x y z =
     (let worldPos = vadd origin (vscale scale (FVector (real_of_int x) (real_of_int y) (real_of_int z)));
          worldZ = Z worldPos
      in (worldZ / scale - heightBias) + noise (vscale noiseFrequency worldPos) * noiseStrength)"

definition unitChunk :: UProceduralTerrain where
  "unitChunk =
     \<lparr>CurrentSize = 2, CurrentScale = 1, CurrentIsoLevel = 0,
      Density = [1, 1, 1, 1, 1, 1, 1, 1], ChunkCoords = (0, 0, 0),
      MeshSections = [\<lparr>Vertices = [], Triangles = [], Normals = []\<rparr>],
      ComponentTransform = idTransform, Name = ''Chunk_0_0_0''\<rparr>"

definition emptySection :: FMeshSection where
  "emptySection = \<lparr>Vertices = [], Triangles = [], Normals = []\<rparr>"

text \<open>
  Three rows of the marching-cubes tables, enough for the examples: case 0 (no corner below
  the iso-level: no edge), case 15 (the four lower corners below it: edges 8 to 11, two
  triangles) and case 254 (corner 0 alone not below it: edges 0, 3 and 8, one triangle).
  Any other case makes the rebuild stop with \<open>BadTableRead\<close>, so an example that returns has
  consulted these rows only.
\<close>

definition sampleEdgeTable :: "nat \<Rightarrow> int" where
  "sampleEdgeTable i =
     (if i = 0 then 0 else if i = 15 then 3840 else if i = 254 then 265 else 1)"

definition sampleTriTable :: "nat \<Rightarrow> int list" where
  "sampleTriTable i =
     (if i = 15 then [9, 8, 10, 10, 8, 11, - 1, - 1, - 1, - 1, - 1, - 1, - 1, - 1, - 1, - 1]
      else if i = 254 then [0, 3, 8, - 1, - 1, - 1, - 1, - 1, - 1, - 1, - 1, - 1, - 1, - 1, - 1, - 1]
      else [])"

definition sampleEngine :: Engine where
  "sampleEngine =
     \<lparr>edgeTable = sampleEdgeTable, triTable = sampleTriTable, PerlinNoise3D = (\<lambda>p. 0),
      ProjectSavedDir = ''Saved/'', Files = (\<lambda>path. NoFile)\<rparr>"



text \<open>
  A world with no chunk yet (chunk size 2, scale 1, stream radius 0, flat noise), the chunk
  that streaming generates for it at cell \<open>(cx, 0, 0)\<close>, and the world after one and after two
  streaming updates.
\<close>

definition emptyWorld :: AProceduralTerrainWorld where
  "emptyWorld =
     \<lparr>ChunkSize = 2, TerrainScale = 1, NoiseScale = 1, HeightBias = 0, NoiseStrength = 0,
      ChunksX = 0, ChunksY = 0, ChunksZ = 0, Chunks = [], StreamRadius = 0,
      PersistentChunks = [], LastPlayerChunkCenter = FVector 0 0 0, bIsGenerating = False,
      CompletedChunks = 0, Objects = (\<lambda>a. None), NextObject = 0, PoolTasks = [],
      GameThreadTasks = []\<rparr>"

definition streamedChunk :: "int \<Rightarrow> UProceduralTerrain" where
  "streamedChunk cx =
     \<lparr>CurrentSize = 2, CurrentScale = 1, CurrentIsoLevel = 0,
      Density = [0, 0, 0, 0, 1, 1, 1, 1], ChunkCoords = (cx, 0, 0),
      MeshSections = [emptySection],
      ComponentTransform = \<lparr>Translation = FVector (real_of_int cx) 0 0, UnrotateVector = (\<lambda>v. v),
                             Scale3D = FVector 1 1 1\<rparr>,
      Name = ChunkName cx 0 0\<rparr>"

definition streamedWorld1 :: AProceduralTerrainWorld where
  "streamedWorld1 =
     emptyWorld\<lparr>LastPlayerChunkCenter := FVector 1 0 0,
                Objects := (Objects emptyWorld)(0 \<mapsto> streamedChunk 1),
                NextObject := 1, Chunks := [0]\<rparr>"

definition streamedWorld2 :: AProceduralTerrainWorld where
  "streamedWorld2 =
     emptyWorld\<lparr>LastPlayerChunkCenter := FVector 2 0 0,
                Objects := (Objects emptyWorld)(0 := None, 1 \<mapsto> streamedChunk 2),
                NextObject := 2, Chunks := [1]\<rparr>"

text \<open>
  A world configured as a grid of one chunk, before construction, and the same world once
  \<^verbatim>\<open>OnConstruction\<close> has created the chunk and scheduled its generation.
\<close>

definition gridWorld :: AProceduralTerrainWorld where
  "gridWorld =
     \<lparr>ChunkSize = 2, TerrainScale = 1, NoiseScale = 1, HeightBias = 0, NoiseStrength = 0,
      ChunksX = 1, ChunksY = 1, ChunksZ = 1, Chunks = [], StreamRadius = 0,
      PersistentChunks = [], LastPlayerChunkCenter = FVector 0 0 0, bIsGenerating = False,
      CompletedChunks = 0, Objects = (\<lambda>a. None), NextObject = 0, PoolTasks = [],
      GameThreadTasks = []\<rparr>"

definition generatingWorld :: AProceduralTerrainWorld where
  "generatingWorld =
     gridWorld\<lparr>Chunks := [0], bIsGenerating := True,
               Objects := (Objects gridWorld)(0 \<mapsto> NewChunk gridWorld (0, 0, 0)),
               NextObject := 1, PoolTasks := [0]\<rparr>"

text \<open>
  A normal as the mesh may carry it: of length one, or the zero vector.
\<close>

definition unitOrZero :: "FVector \<Rightarrow> bool" where
  "unitOrZero n = (SizeSquared n = 1 \<or> n = ZeroVector)"

text \<open>
  A chunk of one cube whose surface collapses to a point: corner \<open>0\<close> sits exactly on the
  iso-level, so the three vertices of the cut all land on that corner, and the scale is so large
  that every gradient is below the normalization threshold.
\<close>

definition degenerateChunk :: UProceduralTerrain where
  "degenerateChunk =
     \<lparr>CurrentSize = 2, CurrentScale = 100000, CurrentIsoLevel = 0,
      Density = [0, - 1, - 1, - 1, - 1, - 1, - 1, - 1], ChunkCoords = (0, 0, 0),
      MeshSections = [], ComponentTransform = idTransform, Name = ''Chunk_0_0_0''\<rparr>"

text \<open>A chunk of one cube cut by the horizontal plane through its middle.\<close>

definition slopeChunk :: UProceduralTerrain where
  "slopeChunk =
     \<lparr>CurrentSize = 2, CurrentScale = 1, CurrentIsoLevel = 0,
      Density = [- (1 / 2), - (1 / 2), - (1 / 2), - (1 / 2), 1 / 2, 1 / 2, 1 / 2, 1 / 2],
      ChunkCoords = (0, 0, 0), MeshSections = [], ComponentTransform = idTransform,
      Name = ''Chunk_0_0_0''\<rparr>"

section \<open>Arithmetic and evaluation lemmas\<close>

lemma i32_id: "- 2147483648 \<le> v \<Longrightarrow> v < 2147483648 \<Longrightarrow> i32 v = v"
  by (simp add: i32_def)

lemma i32_cube:
  assumes "0 < S" "S * S * S < 2147483648"
  shows "i32 (i32 (S * S) * S) = S * S * S"
proof -
  have nn: "0 \<le> S * S" by simp
  have "S * S * 1 \<le> S * S * S" using assms(1) nn by (intro mult_left_mono) auto
  then have lt: "S * S < 2147483648" using assms(2) by simp
  have "i32 (S * S) = S * S" by (rule i32_id) (use nn lt in linarith)+
  moreover have nn3: "0 \<le> S * S * S" using assms(1) by simp
  have "i32 (S * S * S) = S * S * S" by (rule i32_id) (use nn3 assms(2) in linarith)+
  ultimately show ?thesis by simp
qed

lemma bindE_Inr: "bindE (Inr v) f = f v"
  by (simp add: bindE_def)

lemma bindE_Inl: "bindE (Inl e) f = Inl e"
  by (simp add: bindE_def)

text \<open>
  Weak congruence rules: with them the simplifier evaluates a loop or a bind from its
  arguments, and leaves the body alone until it is applied.
\<close>

lemma bindE_weak_cong: "m = m' \<Longrightarrow> bindE m f = bindE m' f"
  by simp

lemma forE_weak_cong: "xs = xs' \<Longrightarrow> s = s' \<Longrightarrow> forE xs body s = forE xs' body s'"
  by simp

lemma mapE_weak_cong: "xs = xs' \<Longrightarrow> mapE f xs = mapE f xs'"
  by simp

section \<open>\<^verbatim>\<open>LoadDensityFromJSON\<close>: what a load with a wrong size does\<close>

text \<open>
  Claim C1 as stated fails. A record that parses, declares size 3 and carries one density
  sample is loaded into a consistent chunk of size 2: the call returns with the size, the
  scale, the iso-level and the density array all replaced by the record's, and the mesh
  cleared. Nothing of the state before the call is kept.
\<close>

theorem Load_mismatch_counterexample:
  "int (length [5::real]) \<noteq> 3 ^ 3
   \<and> LoadDensityFromJSON (\<lambda>i. 0) (\<lambda>i. []) (Parsed mismatchedRecord) savedChunk
       = Inr (savedChunk\<lparr>CurrentSize := 3, CurrentScale := 2, CurrentIsoLevel := 1,
                Density := [5], MeshSections := []\<rparr>)
   \<and> CurrentSize savedChunk = 2 \<and> CurrentScale savedChunk = 1 \<and> CurrentIsoLevel savedChunk = 0
   \<and> Density savedChunk = [1, 1, 1, 1, 1, 1, 1, 1]
   \<and> MeshSections savedChunk = [\<lparr>Vertices = [], Triangles = [], Normals = []\<rparr>]"
  by (simp add: LoadDensityFromJSON_def RebuildMeshFromCurrentDensity_def mismatchedRecord_def
      savedChunk_def ClearAllMeshSections_def i32_def)

text \<open>
  Claim C1, amended. For every record that parses and has a density array, the load first
  overwrites the stored size, scale, iso-level and density with the record's values, with no
  check of the array length against the size, and then calls the rebuild on that state.
  When the declared size is at most 1, or its cube (below the \<^verbatim>\<open>int32\<close> range) differs
  from the array length, the rebuild's guard only clears the mesh: the result is the
  overwritten state with no mesh section.
\<close>

theorem Load_overwrites_then_rebuilds:
  "(DensityField j = Some d \<longrightarrow>
      LoadDensityFromJSON edgeT triT (Parsed j) c
        = RebuildMeshFromCurrentDensity edgeT triT
            (c\<lparr>CurrentSize := SizeField j, CurrentScale := ScaleField j,
               CurrentIsoLevel := IsoLevelField j, Density := d\<rparr>))
   \<and> (DensityField j = Some d
        \<and> (SizeField j \<le> 1
            \<or> SizeField j * SizeField j * SizeField j < 2147483648
               \<and> int (length d) \<noteq> SizeField j * SizeField j * SizeField j) \<longrightarrow>
      LoadDensityFromJSON edgeT triT (Parsed j) c
        = Inr (c\<lparr>CurrentSize := SizeField j, CurrentScale := ScaleField j,
                 CurrentIsoLevel := IsoLevelField j, Density := d, MeshSections := []\<rparr>))"
proof (intro conjI impI)
  assume "DensityField j = Some d"
  then show "LoadDensityFromJSON edgeT triT (Parsed j) c
        = RebuildMeshFromCurrentDensity edgeT triT
            (c\<lparr>CurrentSize := SizeField j, CurrentScale := ScaleField j,
               CurrentIsoLevel := IsoLevelField j, Density := d\<rparr>)"
    by (simp add: LoadDensityFromJSON_def)
next
  let ?S = "SizeField j"
  assume a: "DensityField j = Some d
        \<and> (?S \<le> 1 \<or> ?S * ?S * ?S < 2147483648 \<and> int (length d) \<noteq> ?S * ?S * ?S)"
  have guard: "?S \<le> 1 \<or> int (length d) \<noteq> i32 (i32 (?S * ?S) * ?S)"
  proof (cases "?S \<le> 1")
    case True
    then show ?thesis by simp
  next
    case False
    then have big: "1 < ?S" by simp
    with a have lt: "?S * ?S * ?S < 2147483648" and ne: "int (length d) \<noteq> ?S * ?S * ?S" by auto
    have "i32 (i32 (?S * ?S) * ?S) = ?S * ?S * ?S" using big lt by (intro i32_cube) auto
    then show ?thesis using ne by simp
  qed
  then show "LoadDensityFromJSON edgeT triT (Parsed j) c
        = Inr (c\<lparr>CurrentSize := SizeField j, CurrentScale := ScaleField j,
                 CurrentIsoLevel := IsoLevelField j, Density := d, MeshSections := []\<rparr>)"
    using a by (auto simp: LoadDensityFromJSON_def RebuildMeshFromCurrentDensity_def
        ClearAllMeshSections_def Let_def)
qed

theorem Load_overwrites_then_rebuilds_witness:
  "DensityField mismatchedRecord = Some [5]
   \<and> SizeField mismatchedRecord * SizeField mismatchedRecord * SizeField mismatchedRecord < 2147483648
   \<and> int (length [5::real])
       \<noteq> SizeField mismatchedRecord * SizeField mismatchedRecord * SizeField mismatchedRecord
   \<and> LoadDensityFromJSON (\<lambda>i. 0) (\<lambda>i. []) (Parsed mismatchedRecord) savedChunk
       = Inr (savedChunk\<lparr>CurrentSize := 3, CurrentScale := 2, CurrentIsoLevel := 1,
                Density := [5], MeshSections := []\<rparr>)"
  using Load_overwrites_then_rebuilds
    [THEN conjunct2, of mismatchedRecord "[5]" "\<lambda>i. 0" "\<lambda>i. []" savedChunk]
  by (simp add: mismatchedRecord_def)

section \<open>\<^verbatim>\<open>VertexInterp\<close>: the interpolation and its tie-breaks\<close>

lemma VertexInterp_interpolates:
  assumes "\<not> \<bar>isoLevel - valp1\<bar> < KINDA_SMALL_NUMBER" "\<not> \<bar>isoLevel - valp2\<bar> < KINDA_SMALL_NUMBER"
    "\<not> \<bar>valp1 - valp2\<bar> < KINDA_SMALL_NUMBER"
  shows "\<exists>r. VertexInterp isoLevel p1 p2 valp1 valp2 n1 n2 = Inr r
     \<and> Position r = vadd p1 (vscale ((isoLevel - valp1) / (valp2 - valp1)) (vsub p2 p1))"
proof -
  have "valp2 - valp1 \<noteq> 0" using assms(3) by (auto simp: KINDA_SMALL_NUMBER_def)
  then show ?thesis using assms
    by (simp add: VertexInterp_def fdiv_def bindE_def Let_def)
qed

text \<open>
  Claim C7. For all endpoint positions, densities and normals, \<^verbatim>\<open>VertexInterp\<close> returns a
  result (its division never meets a zero divisor, so no NaN or infinity arises from it), and
  the position returned is corner 1 when the isoLevel-level is within \<open>KINDA_SMALL_NUMBER\<close> of
  \<open>valp1\<close>, else corner 2 when it is that near to \<open>valp2\<close>, else corner 1 when the two
  densities are that near to each other, and otherwise \<open>p1 + mu (p2 - p1)\<close> with
  \<open>mu = (iso - valp1) / (valp2 - valp1)\<close>. In that last case the divisor is at least
  \<open>KINDA_SMALL_NUMBER\<close> in magnitude.
\<close>

theorem VertexInterp_policy:
  "\<exists>r. VertexInterp isoLevel p1 p2 valp1 valp2 n1 n2 = Inr r
     \<and> Position r =
         (if \<bar>isoLevel - valp1\<bar> < KINDA_SMALL_NUMBER then p1
          else if \<bar>isoLevel - valp2\<bar> < KINDA_SMALL_NUMBER then p2
          else if \<bar>valp1 - valp2\<bar> < KINDA_SMALL_NUMBER then p1
          else vadd p1 (vscale ((isoLevel - valp1) / (valp2 - valp1)) (vsub p2 p1)))
     \<and> (\<bar>isoLevel - valp1\<bar> < KINDA_SMALL_NUMBER \<or> \<bar>isoLevel - valp2\<bar> < KINDA_SMALL_NUMBER
          \<or> \<bar>valp1 - valp2\<bar> < KINDA_SMALL_NUMBER \<or> KINDA_SMALL_NUMBER \<le> \<bar>valp2 - valp1\<bar>)"
proof (cases "\<bar>isoLevel - valp1\<bar> < KINDA_SMALL_NUMBER \<or> \<bar>isoLevel - valp2\<bar> < KINDA_SMALL_NUMBER
    \<or> \<bar>valp1 - valp2\<bar> < KINDA_SMALL_NUMBER")
  case True
  then show ?thesis by (auto simp: VertexInterp_def)
next
  case False
  then show ?thesis using VertexInterp_interpolates [of isoLevel valp1 valp2 p1 p2 n1 n2] by auto
qed

section \<open>\<^verbatim>\<open>DigSphere\<close>: the degenerate-input branch\<close>

text \<open>
  Claim C10. When the density array is empty, or the stored size is not positive, or the
  stored scale is nearly zero, \<^verbatim>\<open>DigSphere\<close> returns the chunk as it was: same density,
  same mesh sections, no rebuild.
\<close>

theorem DigSphere_degenerate_unchanged:
  "length (Density c) = 0 \<or> CurrentSize c \<le> 0 \<or> IsNearlyZero (CurrentScale c)
   \<Longrightarrow> DigSphere edgeT triT c pos radius strength = Inr c"
  by (simp add: DigSphere_def)

theorem DigSphere_degenerate_unchanged_witness:
  "length (Density blankChunk) = 0
   \<and> DigSphere (\<lambda>i. 0) (\<lambda>i. []) blankChunk (FVector 1 2 3) 5 (- 20) = Inr blankChunk"
  using DigSphere_degenerate_unchanged [of blankChunk "\<lambda>i. 0" "\<lambda>i. []" "FVector 1 2 3" 5 "- 20"]
  by (simp add: blankChunk_def)

section \<open>\<^verbatim>\<open>RebuildMeshFromCurrentDensity\<close>: every array access is in range\<close>

lemma linear_index_bounds:
  fixes S x y z :: int
  assumes "0 \<le> x" "x < S" "0 \<le> y" "y < S" "0 \<le> z" "z < S"
  shows "0 \<le> y * S" "0 \<le> z * S" "0 \<le> z * S * S" "y * S < S * S * S" "z * S < S * S * S" "z * S * S < S * S * S"
    "x + y * S < S * S * S" "x + y * S + z * S * S < S * S * S"
proof -
  define q where "q = S * S"
  define c where "c = S * S * S"
  define a where "a = y * S"
  define b where "b = z * S"
  define b2 where "b2 = z * S * S"
  have S1: "1 \<le> S" using assms by linarith
  have SS: "S \<le> q" unfolding q_def using S1 by (simp add: mult_le_cancel_left1)
  have SSS: "q \<le> c" unfolding q_def c_def using S1 SS by (simp add: mult_le_cancel_left1)
  have a0: "0 \<le> a" and b0: "0 \<le> b" and b20: "0 \<le> b2"
    unfolding a_def b_def b2_def using assms S1 by simp_all
  have "y * S \<le> (S - 1) * S" using assms S1 by (intro mult_right_mono) auto
  then have yS: "a \<le> q - S" unfolding a_def q_def by (simp add: algebra_simps)
  have zS': "z * S \<le> (S - 1) * S" using assms S1 by (intro mult_right_mono) auto
  then have zS: "b \<le> q - S" unfolding b_def q_def by (simp add: algebra_simps)
  have "z * S * S \<le> (S - 1) * S * S" using zS' S1 by (intro mult_right_mono) auto
  then have zSS: "b2 \<le> c - q" unfolding b2_def c_def q_def by (simp add: algebra_simps)
  have r1: "a < c" using yS SSS S1 by linarith
  have r2: "b < c" using zS SSS S1 by linarith
  have r3: "b2 < c" using zSS SS S1 by linarith
  have r4: "x + a < c" using yS SSS assms(2) by linarith
  have r5: "x + a + b2 < c" using yS zSS assms(2) by linarith
  show "0 \<le> y * S" "0 \<le> z * S" "0 \<le> z * S * S" "y * S < S * S * S" "z * S < S * S * S"
    "z * S * S < S * S * S" "x + y * S < S * S * S" "x + y * S + z * S * S < S * S * S"
    using a0 b0 b20 r1 r2 r3 r4 r5 unfolding a_def b_def b2_def c_def by blast+
qed

lemma GetIndex_in_range:
  assumes "0 \<le> x" "x < S" "0 \<le> y" "y < S" "0 \<le> z" "z < S" "S * S * S < 2147483648"
  shows "GetIndex S x y z = x + y * S + z * S * S"
    and "0 \<le> GetIndex S x y z" and "GetIndex S x y z < S * S * S"
proof -
  note b = linear_index_bounds [OF assms(1-6)]
  have a1: "i32 (y * S) = y * S" by (rule i32_id) (use b assms(7) in linarith)+
  have a2: "i32 (x + y * S) = x + y * S" by (rule i32_id) (use b assms in linarith)+
  have a3: "i32 (z * S) = z * S" by (rule i32_id) (use b assms(7) in linarith)+
  have a4: "i32 (z * S * S) = z * S * S" by (rule i32_id) (use b assms(7) in linarith)+
  have a5: "i32 (x + y * S + z * S * S) = x + y * S + z * S * S"
    by (rule i32_id) (use b assms in linarith)+
  show g: "GetIndex S x y z = x + y * S + z * S * S"
    by (simp add: GetIndex_def a1 a2 a3 a4 a5)
  show "0 \<le> GetIndex S x y z" unfolding g using b assms by linarith
  show "GetIndex S x y z < S * S * S" unfolding g using b by linarith
qed

lemma Clamp_range: "1 \<le> S \<Longrightarrow> 0 \<le> Clamp v 0 (S - 1) \<and> Clamp v 0 (S - 1) < S"
  by (auto simp: Clamp_def)

lemma rd_in_range: "0 \<le> i \<Longrightarrow> i < int (length xs) \<Longrightarrow> rd xs i = Inr (xs ! nat i)"
  by (simp add: rd_def)

lemma wr_in_range: "0 \<le> i \<Longrightarrow> i < int (length xs) \<Longrightarrow> wr xs i v = Inr (xs[nat i := v])"
  by (simp add: wr_def)

lemma SampleDensity_in_range:
  assumes "1 \<le> S" "int (length D) = S * S * S" "S * S * S < 2147483648"
  shows "\<exists>v. SampleDensity D S sx sy sz = Inr v"
proof -
  let ?i = "GetIndex S (Clamp sx 0 (S - 1)) (Clamp sy 0 (S - 1)) (Clamp sz 0 (S - 1))"
  have "0 \<le> ?i \<and> ?i < S * S * S"
    using GetIndex_in_range(2,3) [of "Clamp sx 0 (S - 1)" S "Clamp sy 0 (S - 1)" "Clamp sz 0 (S - 1)"]
      Clamp_range [OF assms(1)] assms(3) by blast
  then show ?thesis using assms(2) by (simp add: SampleDensity_def rd_def)
qed

lemma gradientVoxel_in_range:
  assumes "1 \<le> S" "int (length D) = S * S * S" "S * S * S < 2147483648"
    "length G = length D" "0 \<le> x" "x < S" "0 \<le> y" "y < S" "0 \<le> z" "z < S"
  shows "\<exists>G'. gradientVoxel D S sc z y x G = Inr G' \<and> length G' = length D"
proof -
  note sd = SampleDensity_in_range [OF assms(1-3)]
  obtain xp where xp: "SampleDensity D S (x + 1) y z = Inr xp" using sd by blast
  obtain xm where xm: "SampleDensity D S (x - 1) y z = Inr xm" using sd by blast
  obtain yp where yp: "SampleDensity D S x (y + 1) z = Inr yp" using sd by blast
  obtain ym where ym: "SampleDensity D S x (y - 1) z = Inr ym" using sd by blast
  obtain zp where zp: "SampleDensity D S x y (z + 1) = Inr zp" using sd by blast
  obtain zm where zm: "SampleDensity D S x y (z - 1) = Inr zm" using sd by blast
  have i: "0 \<le> GetIndex S x y z" "GetIndex S x y z < int (length G)"
    using GetIndex_in_range(2,3) [OF assms(5-10) assms(3)] assms(2,4) by auto
  show ?thesis
    using assms(4) by (simp add: gradientVoxel_def xp xm yp ym zp zm bindE_Inr Let_def wr_in_range [OF i])
qed

lemma forE_invariant:
  assumes "I s" "\<And>i s. i \<in> set xs \<Longrightarrow> I s \<Longrightarrow> \<exists>s'. body i s = Inr s' \<and> I s'"
  shows "\<exists>s'. forE xs body s = Inr s' \<and> I s'"
  using assms
proof (induction xs arbitrary: s)
  case Nil
  then show ?case by simp
next
  case (Cons i xs)
  from Cons.prems obtain s1 where s1: "body i s = Inr s1" "I s1" by (meson list.set_intros(1))
  have "\<exists>s'. forE xs body s1 = Inr s' \<and> I s'"
    by (rule Cons.IH [OF s1(2)]) (use Cons.prems(2) in auto)
  then show ?case using s1 by simp
qed

lemma computeGradients_in_range:
  assumes "1 \<le> S" "int (length D) = S * S * S" "S * S * S < 2147483648"
  shows "\<exists>G. computeGradients D S sc = Inr G \<and> length G = length D"
  unfolding computeGradients_def
proof (rule forE_invariant [where I = "\<lambda>G. length G = length D"])
  show "length (replicate (length D) ZeroVector) = length D" by simp
next
  fix z and G :: "FVector list" assume z: "z \<in> set [0..S - 1]" and G: "length G = length D"
  show "\<exists>G'. forE [0..S - 1] (\<lambda>y. forE [0..S - 1] (\<lambda>x. gradientVoxel D S sc z y x)) G = Inr G' \<and> length G' = length D"
  proof (rule forE_invariant [where I = "\<lambda>G. length G = length D", OF G])
    fix y and G1 :: "FVector list" assume y: "y \<in> set [0..S - 1]" and G1: "length G1 = length D"
    show "\<exists>G'. forE [0..S - 1] (\<lambda>x. gradientVoxel D S sc z y x) G1 = Inr G' \<and> length G' = length D"
    proof (rule forE_invariant [where I = "\<lambda>G. length G = length D", OF G1])
      fix x and G2 :: "FVector list" assume x: "x \<in> set [0..S - 1]" and G2: "length G2 = length D"
      show "\<exists>G'. gradientVoxel D S sc z y x G2 = Inr G' \<and> length G' = length D"
        by (rule gradientVoxel_in_range [OF assms G2]) (use x y z in auto)
    qed
  qed
qed


lemma mapE_all_ok:
  assumes "\<And>a. a \<in> set xs \<Longrightarrow> \<exists>b. f a = Inr b"
  shows "\<exists>bs. mapE f xs = Inr bs \<and> length bs = length xs"
  using assms
proof (induction xs)
  case Nil
  then show ?case by simp
next
  case (Cons a xs)
  obtain b where b: "f a = Inr b" using Cons.prems by (meson list.set_intros(1))
  obtain bs where bs: "mapE f xs = Inr bs" "length bs = length xs"
    using Cons.IH Cons.prems by (meson list.set_intros(2))
  show ?case by (simp add: b bs)
qed

lemma mapE_never:
  assumes "\<And>a. a \<in> set xs \<Longrightarrow> f a \<noteq> Inl e"
  shows "mapE f xs \<noteq> Inl e"
  using assms by (induction xs) (auto split: sum.splits)

lemma forE_never:
  assumes "\<And>i s. i \<in> set xs \<Longrightarrow> body i s \<noteq> Inl e"
  shows "forE xs body s \<noteq> Inl e"
  using assms by (induction xs arbitrary: s) (auto split: sum.splits)

lemma bindE_never: "m \<noteq> Inl e \<Longrightarrow> (\<And>v. f v \<noteq> Inl e) \<Longrightarrow> bindE m f \<noteq> Inl e"
  by (cases m) (auto simp: bindE_def)

lemma fetchCorner_in_range:
  assumes "1 < S" "int (length D) = S * S * S" "S * S * S < 2147483648" "length G = length D"
    "0 \<le> x" "x \<le> S - 2" "0 \<le> y" "y \<le> S - 2" "0 \<le> z" "z \<le> S - 2" "off \<in> set CornerOffsets"
  shows "\<exists>r. fetchCorner D G S sc x y z off = Inr r"
proof -
  obtain dx dy dz where off: "off = (dx, dy, dz)" by (cases off) auto
  with assms(11) have d: "0 \<le> dx" "dx \<le> 1" "0 \<le> dy" "dy \<le> 1" "0 \<le> dz" "dz \<le> 1"
    by (auto simp: CornerOffsets_def)
  have r: "0 \<le> x + dx" "x + dx < S" "0 \<le> y + dy" "y + dy < S" "0 \<le> z + dz" "z + dz < S"
    using assms(5-10) d by linarith+
  have i: "0 \<le> GetIndex S (x + dx) (y + dy) (z + dz)"
    "GetIndex S (x + dx) (y + dy) (z + dz) < int (length D)"
    "GetIndex S (x + dx) (y + dy) (z + dz) < int (length G)"
    using GetIndex_in_range(2,3) [OF r assms(3)] assms(2,4) by auto
  show ?thesis
    by (simp add: off rd_in_range [OF i(1,2)] rd_in_range [OF i(1,3)] bindE_Inr)
qed

lemma VertexInterp_returns: "\<exists>r. VertexInterp isoLevel p1 p2 valp1 valp2 n1 n2 = Inr r"
proof (cases "\<bar>isoLevel - valp1\<bar> < KINDA_SMALL_NUMBER \<or> \<bar>isoLevel - valp2\<bar> < KINDA_SMALL_NUMBER
    \<or> \<bar>valp1 - valp2\<bar> < KINDA_SMALL_NUMBER")
  case True
  then show ?thesis by (auto simp: VertexInterp_def)
next
  case False
  then show ?thesis using VertexInterp_interpolates [of isoLevel valp1 valp2 p1 p2 n1 n2] by auto
qed

lemma vertSlot_returns: "\<exists>r. vertSlot isoLevel edges cs e = Inr r"
proof -
  obtain flag a b where e: "e = (flag, a, b)" by (cases e) auto
  obtain r where "VertexInterp isoLevel (fst (cs ! a)) (fst (cs ! b)) (fst (snd (cs ! a)))
      (fst (snd (cs ! b))) (snd (snd (cs ! a))) (snd (snd (cs ! b))) = Inr r"
    using VertexInterp_returns by blast
  then show ?thesis by (simp add: e bindE_Inr)
qed

lemma buildVertList_returns: "\<exists>vl. buildVertList isoLevel edges cs = Inr vl \<and> length vl = 12"
proof -
  have "\<exists>vl. mapE (vertSlot isoLevel edges cs) EdgeCorners = Inr vl \<and> length vl = length EdgeCorners"
    by (rule mapE_all_ok) (rule vertSlot_returns)
  moreover have "length EdgeCorners = 12" by (simp add: EdgeCorners_def)
  ultimately show ?thesis by (simp add: buildVertList_def)
qed

lemma vertAt_fault: "vertAt vl k = Inl e \<Longrightarrow> e = BadTableRead"
  by (auto simp: vertAt_def split: if_splits option.splits)

lemma emitTriangles_fault: "emitTriangles vl row m = Inl e \<Longrightarrow> e = BadTableRead"
proof (induction vl row m rule: emitTriangles.induct)
  case (4 vertList a b c row m)
  show ?case
  proof (cases "a = - 1")
    case True
    with 4 show ?thesis by simp
  next
    case False
    note na = this
    show ?thesis
    proof (cases "vertAt vertList a")
      case (Inl e0)
      with 4 na show ?thesis using vertAt_fault [OF Inl] by (simp add: bindE_Inl)
    next
      case (Inr r0)
      note r0 = this
      show ?thesis
      proof (cases "vertAt vertList b")
        case (Inl e1)
        with 4 na r0 show ?thesis using vertAt_fault [OF Inl] by (simp add: bindE_Inl bindE_Inr)
      next
        case (Inr r1)
        note r1 = this
        show ?thesis
        proof (cases "vertAt vertList c")
          case (Inl e2)
          with 4 na r0 r1 show ?thesis using vertAt_fault [OF Inl] by (simp add: bindE_Inl bindE_Inr)
        next
          case (Inr r2)
          with 4 na r0 r1 show ?thesis by (simp add: bindE_Inr)
        qed
      qed
    qed
  qed
qed (auto split: if_splits)

lemma marchCube_fault:
  assumes "1 < S" "int (length D) = S * S * S" "S * S * S < 2147483648" "length G = length D"
    "0 \<le> x" "x \<le> S - 2" "0 \<le> y" "y \<le> S - 2" "0 \<le> z" "z \<le> S - 2"
    "marchCube edgeT triT D G S sc isoLevel z y x m = Inl e"
  shows "e = BadTableRead"
proof -
  have "\<exists>cs. mapE (fetchCorner D G S sc x y z) CornerOffsets = Inr cs \<and> length cs = length CornerOffsets"
    by (rule mapE_all_ok) (rule fetchCorner_in_range [OF assms(1-10)])
  then obtain cs where cs: "mapE (fetchCorner D G S sc x y z) CornerOffsets = Inr cs" by blast
  let ?ci = "CubeIndex isoLevel (map (\<lambda>c. fst (snd c)) cs)"
  obtain vl where vl: "buildVertList isoLevel (edgeT ?ci) cs = Inr vl"
    using buildVertList_returns by blast
  show ?thesis
    using assms(11) emitTriangles_fault [of vl "triT ?ci" m e]
    by (simp add: marchCube_def cs bindE_Inr Let_def vl split: if_splits)
qed


lemma marchCubes_fault:
  assumes "1 < S" "int (length D) = S * S * S" "S * S * S < 2147483648" "length G = length D"
  shows "marchCubes edgeT triT D G S sc isoLevel \<noteq> Inl IndexOutOfRange"
  unfolding marchCubes_def
proof (intro forE_never)
  fix z y x m
  assume "z \<in> set [0..S - 2]" "y \<in> set [0..S - 2]" "x \<in> set [0..S - 2]"
  then have r: "0 \<le> x" "x \<le> S - 2" "0 \<le> y" "y \<le> S - 2" "0 \<le> z" "z \<le> S - 2" by auto
  show "marchCube edgeT triT D G S sc isoLevel z y x m \<noteq> Inl IndexOutOfRange"
    using marchCube_fault [OF assms r, of edgeT triT sc isoLevel m IndexOutOfRange] by auto
qed

text \<open>
  Claim C9. Let the stored size exceed 1 and the density array hold exactly size cubed
  samples (a \<^verbatim>\<open>TArray\<close> holds fewer than \<open>2^31\<close> elements). Then the gradient loop
  completes over all voxels: each of its six clamped samples and its write to the gradient
  array is in range. For every unit cube of the grid the eight corner fetches, from the
  density and from the gradient array, are in range. And the rebuild as a whole never makes
  an out-of-range array access, whatever the two lookup tables hold; no 32-bit index
  computation overflows on the way.
\<close>

theorem Rebuild_reads_in_bounds:
  assumes "1 < CurrentSize c"
    and "int (length (Density c)) = CurrentSize c * CurrentSize c * CurrentSize c"
    and "int (length (Density c)) < 2147483648"
  shows "(\<exists>G. computeGradients (Density c) (CurrentSize c) (CurrentScale c) = Inr G
            \<and> length G = length (Density c)
            \<and> (\<forall>x y z. 0 \<le> x \<and> x \<le> CurrentSize c - 2 \<and> 0 \<le> y \<and> y \<le> CurrentSize c - 2
                       \<and> 0 \<le> z \<and> z \<le> CurrentSize c - 2 \<longrightarrow>
                 (\<exists>cs. mapE (fetchCorner (Density c) G (CurrentSize c) (CurrentScale c) x y z)
                          CornerOffsets = Inr cs)))
         \<and> RebuildMeshFromCurrentDensity edgeT triT c \<noteq> Inl IndexOutOfRange"
proof -
  let ?S = "CurrentSize c" and ?D = "Density c"
  have S1: "1 \<le> ?S" and lt: "?S * ?S * ?S < 2147483648" using assms by auto
  obtain G where G: "computeGradients ?D ?S (CurrentScale c) = Inr G" "length G = length ?D"
    using computeGradients_in_range [OF S1 assms(2) lt] by blast
  have corners: "\<exists>cs. mapE (fetchCorner ?D G ?S (CurrentScale c) x y z) CornerOffsets = Inr cs"
    if "0 \<le> x" "x \<le> ?S - 2" "0 \<le> y" "y \<le> ?S - 2" "0 \<le> z" "z \<le> ?S - 2" for x y z
  proof -
    have "\<exists>cs. mapE (fetchCorner ?D G ?S (CurrentScale c) x y z) CornerOffsets = Inr cs
        \<and> length cs = length CornerOffsets"
      by (rule mapE_all_ok) (rule fetchCorner_in_range [OF assms(1,2) lt G(2) that])
    then show ?thesis by blast
  qed
  have cube: "i32 (i32 (?S * ?S) * ?S) = ?S * ?S * ?S"
    by (rule i32_cube) (use assms(1) lt in auto)
  have mc: "marchCubes edgeT triT ?D G ?S (CurrentScale c) (CurrentIsoLevel c) \<noteq> Inl IndexOutOfRange"
    by (rule marchCubes_fault [OF assms(1,2) lt G(2)])
  have "RebuildMeshFromCurrentDensity edgeT triT c \<noteq> Inl IndexOutOfRange"
    using assms(1,2) mc
    by (cases "marchCubes edgeT triT ?D G ?S (CurrentScale c) (CurrentIsoLevel c)")
       (simp_all add: RebuildMeshFromCurrentDensity_def Let_def cube G(1) bindE_Inr bindE_Inl)
  with G corners show ?thesis by blast
qed

theorem Rebuild_reads_in_bounds_witness:
  "1 < CurrentSize savedChunk
   \<and> int (length (Density savedChunk)) = CurrentSize savedChunk * CurrentSize savedChunk * CurrentSize savedChunk
   \<and> int (length (Density savedChunk)) < 2147483648
   \<and> RebuildMeshFromCurrentDensity (\<lambda>i. 0) (\<lambda>i. []) savedChunk \<noteq> Inl IndexOutOfRange"
  using Rebuild_reads_in_bounds [of savedChunk "\<lambda>i. 0" "\<lambda>i. []"]
  by (simp add: savedChunk_def)

section \<open>\<^verbatim>\<open>BuildDensityField\<close>: the value written to every cell\<close>

lemma upto_0_1: "[0..1::int] = [0, 1]"
  by (simp add: upto_rec1)

lemma replicate_8: "replicate 8 v = [v, v, v, v, v, v, v, v]"
  by (simp add: numeral_eq_Suc)

text \<open>
  Claim C6 as stated fails. A chunk placed at world height 1 (the upper chunk of a grid two
  chunks high, chunk size 2, scale 1) is populated with zero noise and zero bias: cell
  \<open>(0, 0, 0)\<close> receives 0, the cell's grid height, where the stated formula gives
  \<open>worldZ / scale = 1\<close>.
\<close>

theorem BuildDensityField_counterexample:
  "BuildDensityField (\<lambda>p. 0) upperChunk 2 1 1 0 0
     = Inr (upperChunk\<lparr>CurrentSize := 2, CurrentScale := 1, Density := [0, 0, 0, 0, 1, 1, 1, 1]\<rparr>)
   \<and> [0, 0, 0, 0, 1, 1, 1, 1 :: real] ! nat (GetIndex 2 0 0 0) = 0
   \<and> specPopulateValue (\<lambda>p. 0) (GetComponentLocation upperChunk) 1 1 0 0 0 0 0 = 1"
  by (simp add: BuildDensityField_def SetNum_def buildVoxel_def wr_def GetIndex_def i32_def
      upperChunk_def GetComponentLocation_def specPopulateValue_def vadd_def vscale_def Let_def
      bindE_Inr bindE_Inl upto_0_1 replicate_8
      cong: bindE_weak_cong forE_weak_cong)


lemma linear_index_inj:
  fixes S :: int
  assumes "0 \<le> x" "x < S" "0 \<le> y" "y < S" "0 \<le> x'" "x' < S" "0 \<le> y'" "y' < S"
    "x + y * S + z * S * S = x' + y' * S + z' * S * S"
  shows "x = x' \<and> y = y' \<and> z = z'"
proof -
  have S0: "0 < S" using assms by linarith
  have e: "x + S * (y + S * z) = x' + S * (y' + S * z')"
    using assms(9) by (simp add: algebra_simps)
  have "(x + S * (y + S * z)) mod S = x" using assms(1,2) by simp
  moreover have "(x' + S * (y' + S * z')) mod S = x'" using assms(5,6) by simp
  ultimately have x: "x = x'" using e by simp
  with e S0 have e2: "y + S * z = y' + S * z'" by simp
  have "(y + S * z) mod S = y" using assms(3,4) by simp
  moreover have "(y' + S * z') mod S = y'" using assms(7,8) by simp
  ultimately have y: "y = y'" using e2 by simp
  with e2 S0 have "z = z'" by simp
  with x y show ?thesis by simp
qed

lemma forE_writes:
  assumes "distinct xs" "length D = n"
    and step: "\<And>i D. i \<in> set xs \<Longrightarrow> length D = n \<Longrightarrow>
          \<exists>D'. body i D = Inr D' \<and> length D' = n \<and> (\<forall>k\<in>C i. Q k (D' ! k))
             \<and> (\<forall>k. k \<notin> C i \<longrightarrow> D' ! k = D ! k)"
    and disj: "\<And>i j. i \<in> set xs \<Longrightarrow> j \<in> set xs \<Longrightarrow> i \<noteq> j \<Longrightarrow> C i \<inter> C j = {}"
  shows "\<exists>D'. forE xs body D = Inr D' \<and> length D' = n \<and> (\<forall>k\<in>(\<Union>i\<in>set xs. C i). Q k (D' ! k))
           \<and> (\<forall>k. k \<notin> (\<Union>i\<in>set xs. C i) \<longrightarrow> D' ! k = D ! k)"
  using assms
proof (induction xs arbitrary: D)
  case Nil
  then show ?case by simp
next
  case (Cons i xs)
  obtain D1 where D1: "body i D = Inr D1" "length D1 = n" "\<forall>k\<in>C i. Q k (D1 ! k)"
      "\<forall>k. k \<notin> C i \<longrightarrow> D1 ! k = D ! k"
    using Cons.prems(3) [of i D] Cons.prems(2) by auto
  have "\<exists>D'. forE xs body D1 = Inr D' \<and> length D' = n \<and> (\<forall>k\<in>(\<Union>i\<in>set xs. C i). Q k (D' ! k))
           \<and> (\<forall>k. k \<notin> (\<Union>i\<in>set xs. C i) \<longrightarrow> D' ! k = D1 ! k)"
  proof (rule Cons.IH [OF _ D1(2)])
    show "distinct xs" using Cons.prems(1) by simp
    show "\<exists>D'. body j E = Inr D' \<and> length D' = n \<and> (\<forall>k\<in>C j. Q k (D' ! k))
             \<and> (\<forall>k. k \<notin> C j \<longrightarrow> D' ! k = E ! k)" if "j \<in> set xs" "length E = n" for j E
      using Cons.prems(3) [of j E] that by simp
    show "C j \<inter> C l = {}" if "j \<in> set xs" "l \<in> set xs" "j \<noteq> l" for j l
      using Cons.prems(4) [of j l] that by simp
  qed
  then obtain D' where D': "forE xs body D1 = Inr D'" "length D' = n"
      "\<forall>k\<in>(\<Union>i\<in>set xs. C i). Q k (D' ! k)" "\<forall>k. k \<notin> (\<Union>i\<in>set xs. C i) \<longrightarrow> D' ! k = D1 ! k"
    by blast
  have fresh: "k \<notin> (\<Union>j\<in>set xs. C j)" if "k \<in> C i" for k
  proof
    assume "k \<in> (\<Union>j\<in>set xs. C j)"
    then obtain j where j: "j \<in> set xs" "k \<in> C j" by blast
    with Cons.prems(1) have "i \<noteq> j" by auto
    then have "C i \<inter> C j = {}" using Cons.prems(4) [of i j] j(1) by simp
    with that j(2) show False by blast
  qed
  have "forE (i # xs) body D = Inr D'" using D1(1) D'(1) by simp
  moreover have "\<forall>k\<in>(\<Union>j\<in>set (i # xs). C j). Q k (D' ! k)"
    using D1(3) D'(3,4) fresh by auto
  moreover have "\<forall>k. k \<notin> (\<Union>j\<in>set (i # xs). C j) \<longrightarrow> D' ! k = D ! k"
    using D1(4) D'(4) by auto
  ultimately show ?case using D'(2) by blast
qed


lemma buildVoxel_in_range:
  assumes "0 \<le> x" "x < S" "0 \<le> y" "y < S" "0 \<le> z" "z < S" "S * S * S < 2147483648"
    "int (length D) = S * S * S"
  shows "buildVoxel noise org S sc nf hb ns z y x D
     = Inr (D[nat (x + y * S + z * S * S) :=
                (real_of_int z - hb)
                + noise (vscale nf (vadd org (FVector (real_of_int x * sc) (real_of_int y * sc)
                                                 (real_of_int z * sc)))) * ns])"
proof -
  note g = GetIndex_in_range [OF assms(1-7)]
  have r: "0 \<le> x + y * S + z * S * S" "x + y * S + z * S * S < int (length D)"
    using g assms(8) by auto
  show ?thesis
    using r by (simp add: buildVoxel_def Let_def g(1) wr_def bindE_Inr)
qed

lemma BuildDensityField_cells_aux:
  fixes S :: int and noise :: "FVector \<Rightarrow> real" and org :: FVector and sc nf hb ns :: real
  assumes S: "0 < S" "S * S * S < 2147483648" and len: "int (length D) = S * S * S"
  defines "val \<equiv> \<lambda>x y z. (real_of_int z - hb)
                + noise (vscale nf (vadd org (FVector (real_of_int x * sc) (real_of_int y * sc)
                                                 (real_of_int z * sc)))) * ns"
  shows "\<exists>D'. forE [0..S - 1] (\<lambda>z. forE [0..S - 1] (\<lambda>y. forE [0..S - 1] (\<lambda>x.
                  buildVoxel noise org S sc nf hb ns z y x))) D = Inr D'
           \<and> length D' = length D
           \<and> (\<forall>x y z. 0 \<le> x \<and> x < S \<and> 0 \<le> y \<and> y < S \<and> 0 \<le> z \<and> z < S \<longrightarrow>
                 D' ! nat (x + y * S + z * S * S) = val x y z)"
proof -
  define inr where "inr = (\<lambda>v::int. 0 \<le> v \<and> v < S)"
  define ix where "ix = (\<lambda>x y z. nat (x + y * S + z * S * S))"
  define Q where "Q = (\<lambda>k v. \<forall>x y z. inr x \<and> inr y \<and> inr z \<and> k = ix x y z \<longrightarrow> v = val x y z)"
  define n where "n = length D"
  have inj: "x = x' \<and> y = y' \<and> z = z'"
    if "inr x" "inr y" "inr z" "inr x'" "inr y'" "inr z'" "ix x y z = ix x' y' z'" for x y z x' y' z'
  proof -
    have "0 \<le> x + y * S + z * S * S" "0 \<le> x' + y' * S + z' * S * S"
      using that S(1) by (auto simp: inr_def)
    with that(7) have "x + y * S + z * S * S = x' + y' * S + z' * S * S" by (simp add: ix_def)
    then show ?thesis using linear_index_inj [of x S y x' y' z z'] that by (auto simp: inr_def)
  qed
  have memD: "inr v" if "v \<in> set [0..S - 1]" for v using that by (simp add: inr_def)
  have memI: "v \<in> set [0..S - 1]" if "inr v" for v using that by (simp add: inr_def)
  have inner: "\<exists>D'. buildVoxel noise org S sc nf hb ns z y x E = Inr D' \<and> length D' = n
      \<and> (\<forall>k\<in>{ix x y z}. Q k (D' ! k)) \<and> (\<forall>k. k \<notin> {ix x y z} \<longrightarrow> D' ! k = E ! k)"
    if "inr x" "inr y" "inr z" "length E = n" for x y z E
  proof -
    have lenE: "int (length E) = S * S * S" using that(4) len by (simp add: n_def)
    have r: "0 \<le> x + y * S + z * S * S" "x + y * S + z * S * S < int (length E)"
      using GetIndex_in_range [of x S y z] that lenE S(2) by (auto simp: inr_def)
    have b: "buildVoxel noise org S sc nf hb ns z y x E = Inr (E[ix x y z := val x y z])"
      using buildVoxel_in_range [of x S y z E noise org sc nf hb ns] that lenE S(2)
      by (simp add: inr_def ix_def val_def)
    have "ix x y z < length E" using r by (simp add: ix_def)
    then have "Q (ix x y z) ((E[ix x y z := val x y z]) ! ix x y z)"
      using inj [OF that(1-3)] by (auto simp: Q_def)
    then show ?thesis using b that(4) by auto
  qed
  have xloop: "\<exists>D'. forE [0..S - 1] (\<lambda>x. buildVoxel noise org S sc nf hb ns z y x) E = Inr D'
      \<and> length D' = n \<and> (\<forall>k\<in>(\<Union>x\<in>set [0..S - 1]. {ix x y z}). Q k (D' ! k))
      \<and> (\<forall>k. k \<notin> (\<Union>x\<in>set [0..S - 1]. {ix x y z}) \<longrightarrow> D' ! k = E ! k)"
    if "inr y" "inr z" "length E = n" for y z E
  proof (rule forE_writes [OF _ that(3)])
    show "distinct [0..S - 1]" by simp
    show "\<exists>D'. buildVoxel noise org S sc nf hb ns z y x F = Inr D' \<and> length D' = n
        \<and> (\<forall>k\<in>{ix x y z}. Q k (D' ! k)) \<and> (\<forall>k. k \<notin> {ix x y z} \<longrightarrow> D' ! k = F ! k)"
      if "x \<in> set [0..S - 1]" "length F = n" for x F
      by (rule inner [OF memD [OF that(1)] \<open>inr y\<close> \<open>inr z\<close> that(2)])
    show "{ix x y z} \<inter> {ix x' y z} = {}" if "x \<in> set [0..S - 1]" "x' \<in> set [0..S - 1]" "x \<noteq> x'" for x x'
      using inj [OF memD [OF that(1)] \<open>inr y\<close> \<open>inr z\<close> memD [OF that(2)] \<open>inr y\<close> \<open>inr z\<close>] that(3)
      by blast
  qed
  have yloop: "\<exists>D'. forE [0..S - 1] (\<lambda>y. forE [0..S - 1] (\<lambda>x. buildVoxel noise org S sc nf hb ns z y x)) E = Inr D'
      \<and> length D' = n
      \<and> (\<forall>k\<in>(\<Union>y\<in>set [0..S - 1]. \<Union>x\<in>set [0..S - 1]. {ix x y z}). Q k (D' ! k))
      \<and> (\<forall>k. k \<notin> (\<Union>y\<in>set [0..S - 1]. \<Union>x\<in>set [0..S - 1]. {ix x y z}) \<longrightarrow> D' ! k = E ! k)"
    if "inr z" "length E = n" for z E
  proof (rule forE_writes [OF _ that(2)])
    show "distinct [0..S - 1]" by simp
    show "\<exists>D'. forE [0..S - 1] (\<lambda>x. buildVoxel noise org S sc nf hb ns z y x) F = Inr D'
        \<and> length D' = n \<and> (\<forall>k\<in>(\<Union>x\<in>set [0..S - 1]. {ix x y z}). Q k (D' ! k))
        \<and> (\<forall>k. k \<notin> (\<Union>x\<in>set [0..S - 1]. {ix x y z}) \<longrightarrow> D' ! k = F ! k)"
      if "y \<in> set [0..S - 1]" "length F = n" for y F
      by (rule xloop [OF memD [OF that(1)] \<open>inr z\<close> that(2)])
    show "(\<Union>x\<in>set [0..S - 1]. {ix x y z}) \<inter> (\<Union>x\<in>set [0..S - 1]. {ix x y' z}) = {}"
      if "y \<in> set [0..S - 1]" "y' \<in> set [0..S - 1]" "y \<noteq> y'" for y y'
    proof (rule ccontr)
      assume "\<not> ?thesis"
      then obtain x x' where "x \<in> set [0..S - 1]" "x' \<in> set [0..S - 1]" "ix x y z = ix x' y' z"
        by blast
      then show False
        using inj [of x y z x' y' z] memD that \<open>inr z\<close> by blast
    qed
  qed
  have zloop: "\<exists>D'. forE [0..S - 1] (\<lambda>z. forE [0..S - 1] (\<lambda>y. forE [0..S - 1] (\<lambda>x.
                  buildVoxel noise org S sc nf hb ns z y x))) D = Inr D'
      \<and> length D' = n
      \<and> (\<forall>k\<in>(\<Union>z\<in>set [0..S - 1]. \<Union>y\<in>set [0..S - 1]. \<Union>x\<in>set [0..S - 1]. {ix x y z}). Q k (D' ! k))
      \<and> (\<forall>k. k \<notin> (\<Union>z\<in>set [0..S - 1]. \<Union>y\<in>set [0..S - 1]. \<Union>x\<in>set [0..S - 1]. {ix x y z})
             \<longrightarrow> D' ! k = D ! k)"
  proof (rule forE_writes [where n = n])
    show "distinct [0..S - 1]" by simp
    show "length D = n" by (simp add: n_def)
    show "\<exists>D'. forE [0..S - 1] (\<lambda>y. forE [0..S - 1] (\<lambda>x. buildVoxel noise org S sc nf hb ns z y x)) F = Inr D'
        \<and> length D' = n
        \<and> (\<forall>k\<in>(\<Union>y\<in>set [0..S - 1]. \<Union>x\<in>set [0..S - 1]. {ix x y z}). Q k (D' ! k))
        \<and> (\<forall>k. k \<notin> (\<Union>y\<in>set [0..S - 1]. \<Union>x\<in>set [0..S - 1]. {ix x y z}) \<longrightarrow> D' ! k = F ! k)"
      if "z \<in> set [0..S - 1]" "length F = n" for z F
      by (rule yloop [OF memD [OF that(1)] that(2)])
    show "(\<Union>y\<in>set [0..S - 1]. \<Union>x\<in>set [0..S - 1]. {ix x y z})
        \<inter> (\<Union>y\<in>set [0..S - 1]. \<Union>x\<in>set [0..S - 1]. {ix x y z'}) = {}"
      if "z \<in> set [0..S - 1]" "z' \<in> set [0..S - 1]" "z \<noteq> z'" for z z'
    proof (rule ccontr)
      assume "\<not> ?thesis"
      then obtain x y x' y' where "x \<in> set [0..S - 1]" "y \<in> set [0..S - 1]"
          "x' \<in> set [0..S - 1]" "y' \<in> set [0..S - 1]" "ix x y z = ix x' y' z'"
        by blast
      then show False
        using inj [of x y z x' y' z'] memD that by blast
    qed
  qed
  then obtain D' where D': "forE [0..S - 1] (\<lambda>z. forE [0..S - 1] (\<lambda>y. forE [0..S - 1] (\<lambda>x.
                  buildVoxel noise org S sc nf hb ns z y x))) D = Inr D'" "length D' = n"
      "\<forall>k\<in>(\<Union>z\<in>set [0..S - 1]. \<Union>y\<in>set [0..S - 1]. \<Union>x\<in>set [0..S - 1]. {ix x y z}). Q k (D' ! k)"
    by blast
  have "D' ! nat (x + y * S + z * S * S) = val x y z"
    if "0 \<le> x" "x < S" "0 \<le> y" "y < S" "0 \<le> z" "z < S" for x y z
  proof -
    have i: "inr x" "inr y" "inr z" using that by (auto simp: inr_def)
    then have "ix x y z \<in> (\<Union>z\<in>set [0..S - 1]. \<Union>y\<in>set [0..S - 1]. \<Union>x\<in>set [0..S - 1]. {ix x y z})"
      using memI by blast
    then have "Q (ix x y z) (D' ! ix x y z)" using D'(3) by blast
    then show ?thesis using i by (auto simp: Q_def ix_def)
  qed
  then show ?thesis using D'(1,2) by (auto simp: n_def)
qed


text \<open>
  Claim C6, amended. For a positive size whose cube is within \<^verbatim>\<open>int32\<close>, and every scale,
  origin and noise parameters, \<^verbatim>\<open>BuildDensityField\<close> returns with the size and scale
  stored and a density array of size cubed samples, and every grid cell \<open>(x, y, z)\<close> holds
  \<open>(z - HeightBias) + noise (WorldPos * NoiseScale) * NoiseStrength\<close>, where \<open>z\<close> is the
  cell's grid index and \<open>WorldPos = origin + (x, y, z) * Scale\<close>. This is the value the claim
  states when the origin's height is 0 and the scale is not 0.
\<close>

theorem BuildDensityField_cells:
  assumes "0 < S" "S * S * S < 2147483648"
  shows "\<exists>c'. BuildDensityField noise c S sc nf hb ns = Inr c'
     \<and> CurrentSize c' = S \<and> CurrentScale c' = sc \<and> int (length (Density c')) = S * S * S
     \<and> (\<forall>x y z. 0 \<le> x \<and> x < S \<and> 0 \<le> y \<and> y < S \<and> 0 \<le> z \<and> z < S \<longrightarrow>
           Density c' ! nat (GetIndex S x y z)
             = (real_of_int z - hb)
               + noise (vscale nf (vadd (GetComponentLocation c)
                           (FVector (real_of_int x * sc) (real_of_int y * sc) (real_of_int z * sc)))) * ns
           \<and> (Z (GetComponentLocation c) = 0 \<and> sc \<noteq> 0 \<longrightarrow>
                Density c' ! nat (GetIndex S x y z)
                  = specPopulateValue noise (GetComponentLocation c) sc nf hb ns x y z))"
proof -
  let ?org = "GetComponentLocation c"
  have cube: "i32 (i32 (S * S) * S) = S * S * S" by (rule i32_cube [OF assms])
  have nn: "0 \<le> S * S * S" using assms(1) by simp
  define D0 where "D0 = take (nat (S * S * S)) (Density c) @ replicate (nat (S * S * S) - length (Density c)) 0"
  have len0: "int (length D0) = S * S * S" using nn by (auto simp: D0_def)
  have sn: "SetNum (Density c) (S * S * S) = Inr D0" using nn by (simp add: SetNum_def D0_def)
  obtain D1 where D1: "forE [0..S - 1] (\<lambda>z. forE [0..S - 1] (\<lambda>y. forE [0..S - 1] (\<lambda>x.
                  buildVoxel noise ?org S sc nf hb ns z y x))) D0 = Inr D1"
      "length D1 = length D0"
      "\<forall>x y z. 0 \<le> x \<and> x < S \<and> 0 \<le> y \<and> y < S \<and> 0 \<le> z \<and> z < S \<longrightarrow>
          D1 ! nat (x + y * S + z * S * S)
            = (real_of_int z - hb)
              + noise (vscale nf (vadd ?org (FVector (real_of_int x * sc) (real_of_int y * sc)
                                                (real_of_int z * sc)))) * ns"
    using BuildDensityField_cells_aux [OF assms len0, of noise ?org sc nf hb ns] by blast
  let ?c' = "c\<lparr>CurrentSize := S, CurrentScale := sc, Density := D1\<rparr>"
  have run: "BuildDensityField noise c S sc nf hb ns = Inr ?c'"
    using assms(1) len0 by (simp add: BuildDensityField_def cube sn bindE_Inr Let_def D1(1))
  have cell: "Density ?c' ! nat (GetIndex S x y z)
             = (real_of_int z - hb)
               + noise (vscale nf (vadd ?org
                           (FVector (real_of_int x * sc) (real_of_int y * sc) (real_of_int z * sc)))) * ns"
    if "0 \<le> x" "x < S" "0 \<le> y" "y < S" "0 \<le> z" "z < S" for x y z
    using D1(3) that GetIndex_in_range(1) [OF that assms(2)] by simp
  have spec: "(real_of_int z - hb)
               + noise (vscale nf (vadd ?org
                           (FVector (real_of_int x * sc) (real_of_int y * sc) (real_of_int z * sc)))) * ns
             = specPopulateValue noise ?org sc nf hb ns x y z"
    if "Z ?org = 0" "sc \<noteq> 0" for x y z
    using that by (simp add: specPopulateValue_def Let_def vadd_def vscale_def mult.commute)
  show ?thesis
    using run cell spec len0 D1(2) by (intro exI [of _ ?c']) auto
qed

theorem BuildDensityField_cells_witness:
  "(0::int) < 2 \<and> (2::int) * 2 * 2 < 2147483648 \<and> (0::int) \<le> 1 \<and> (1::int) < 2
   \<and> (\<exists>c'. BuildDensityField (\<lambda>p. 0) upperChunk 2 1 1 0 0 = Inr c'
         \<and> Density c' ! nat (GetIndex 2 1 1 1) = 1)"
  using BuildDensityField_cells [of 2 "\<lambda>p. 0" upperChunk 1 1 0 0]
  by force

section \<open>\<^verbatim>\<open>DigSphere\<close> with strength zero\<close>

lemma upto_0_0: "[0..0::int] = [0]"
  by (simp add: upto_rec1)

text \<open>
  Claim C8 at a radius of zero. A consistent chunk of size 2 at the world origin is dug at
  its voxel \<open>(0, 0, 0)\<close> with radius 0 and strength 0. The voxel radius is 0, the one voxel
  visited lies at distance 0, and the falloff divides 0 by 0: the source adds
  \<open>0 * (1 - NaN)\<close> to the sample, which the model reports as \<open>NonFinite\<close>.
\<close>

theorem DigSphere_zero_radius_NonFinite:
  "CurrentSize unitChunk = 2 \<and> length (Density unitChunk) = 8
   \<and> DigSphere (\<lambda>i. 0) (\<lambda>i. []) unitChunk (FVector 0 0 0) 0 0 = Inl NonFinite"
  by (simp add: DigSphere_def unitChunk_def idTransform_def IsNearlyZero_def SMALL_NUMBER_def
      InverseTransformPosition_def SafeReciprocal_def vsub_def vmul_def vscale_def RoundToInt_def
      GetAbsMax_def KINDA_SMALL_NUMBER_def CeilToInt_def digLoops_def upto_0_0 digVoxel_def Dist_def
      SizeSquared_def fdiv_def Let_def bindE_Inl
      cong: bindE_weak_cong forE_weak_cong)

lemma forE_fixed:
  assumes "\<And>i. i \<in> set xs \<Longrightarrow> body i s = Inr s"
  shows "forE xs body s = Inr s"
  using assms by (induction xs) auto

lemma digVoxel_zero_strength:
  assumes "0 < S" "int (length D) = S * S * S" "S * S * S < 2147483648" "R \<noteq> 0"
  shows "digVoxel S center R 0 z y x D = Inr D"
proof (cases "x < 0 \<or> y < 0 \<or> z < 0 \<or> x \<ge> S \<or> y \<ge> S \<or> z \<ge> S")
  case True
  then show ?thesis by (simp add: digVoxel_def)
next
  case False
  then have r: "0 \<le> x" "x < S" "0 \<le> y" "y < S" "0 \<le> z" "z < S" by auto
  have i: "0 \<le> GetIndex S x y z" "GetIndex S x y z < int (length D)"
    using GetIndex_in_range(2,3) [OF r assms(3)] assms(2) by auto
  have "nat (GetIndex S x y z) < length D" using i by simp
  then have upd: "D[nat (GetIndex S x y z) := D ! nat (GetIndex S x y z)] = D" by simp
  show ?thesis
    using False assms(4)
    by (simp add: digVoxel_def Let_def fdiv_def bindE_Inr rd_in_range [OF i] wr_in_range [OF i] upd)
qed

lemma digLoops_zero_strength:
  assumes "0 < S" "int (length D) = S * S * S" "S * S * S < 2147483648" "R \<noteq> 0"
  shows "digLoops S center xc yc zc R 0 D = Inr D"
  unfolding digLoops_def
  by (intro forE_fixed digVoxel_zero_strength [OF assms])

text \<open>
  Away from a voxel radius of zero the claim holds: on a consistent density field a dig of
  strength 0 leaves every sample as it was, and the call ends in the rebuild of the mesh
  from that unchanged field.
\<close>

lemma DigSphere_zero_strength:
  assumes "0 < CurrentSize c"
    and "int (length (Density c)) = CurrentSize c * CurrentSize c * CurrentSize c"
    and "int (length (Density c)) < 2147483648"
    and "CeilToInt (radius / max (GetAbsMax (Scale3D (ComponentTransform c))) KINDA_SMALL_NUMBER
                     / CurrentScale c) \<noteq> 0"
  shows "DigSphere edgeT triT c pos radius 0
     = (if IsNearlyZero (CurrentScale c) then Inr c else RebuildMeshFromCurrentDensity edgeT triT c)"
proof -
  have lt: "CurrentSize c * CurrentSize c * CurrentSize c < 2147483648" using assms(2,3) by simp
  have ne: "length (Density c) \<noteq> 0" using assms(1,2) by auto
  show ?thesis
    using assms(1) ne
    by (simp add: DigSphere_def Let_def digLoops_zero_strength [OF assms(1,2) lt assms(4)] bindE_Inr
        del: divide_divide_eq_left)
qed

section \<open>A field with no sample below the iso-level gives no geometry\<close>

lemma mapE_elems:
  "mapE f xs = Inr bs \<Longrightarrow> b \<in> set bs \<Longrightarrow> \<exists>a\<in>set xs. f a = Inr b"
proof (induction xs arbitrary: bs)
  case Nil
  then show ?case by simp
next
  case (Cons a xs)
  then show ?case by (auto split: sum.splits)
qed

lemma mapE_length: "mapE f xs = Inr bs \<Longrightarrow> length bs = length xs"
  by (induction xs arbitrary: bs) (auto split: sum.splits)

lemma fetchCorner_value:
  assumes "fetchCorner D G S sc x y z off = Inr r"
  shows "fst (snd r) \<in> set D"
proof -
  obtain dx dy dz where off: "off = (dx, dy, dz)" by (cases off) auto
  let ?i = "GetIndex S (x + dx) (y + dy) (z + dz)"
  from assms off obtain v where v: "rd D ?i = Inr v" and r: "fst (snd r) = v"
    by (cases "rd D ?i"; cases "rd G ?i") (auto simp: bindE_Inr bindE_Inl)
  from v have "0 \<le> ?i \<and> ?i < int (length D) \<and> v = D ! nat ?i"
    by (auto simp: rd_def split: if_splits)
  then show ?thesis using r by auto
qed

lemma CubeIndex_all_above:
  assumes "length vals = 8" "\<forall>v\<in>set vals. \<not> v < isoLevel"
  shows "CubeIndex isoLevel vals = 0"
proof -
  have "\<not> vals ! i < isoLevel" if "i < 8" for i using assms that by auto
  then show ?thesis by (simp add: CubeIndex_def)
qed

lemma marchCube_all_above:
  assumes "1 < S" "int (length D) = S * S * S" "S * S * S < 2147483648" "length G = length D"
    "0 \<le> x" "x \<le> S - 2" "0 \<le> y" "y \<le> S - 2" "0 \<le> z" "z \<le> S - 2"
    "\<forall>v\<in>set D. \<not> v < isoLevel" "edgeT 0 = 0"
  shows "marchCube edgeT triT D G S sc isoLevel z y x m = Inr m"
proof -
  have "\<exists>cs. mapE (fetchCorner D G S sc x y z) CornerOffsets = Inr cs \<and> length cs = length CornerOffsets"
    by (rule mapE_all_ok) (rule fetchCorner_in_range [OF assms(1-10)])
  then obtain cs where cs: "mapE (fetchCorner D G S sc x y z) CornerOffsets = Inr cs"
    "length cs = length CornerOffsets" by blast
  have "fst (snd c) \<in> set D" if "c \<in> set cs" for c
    using mapE_elems [OF cs(1) that] fetchCorner_value by blast
  then have "\<forall>v\<in>set (map (\<lambda>c. fst (snd c)) cs). \<not> v < isoLevel" using assms(11) by auto
  moreover have "length (map (\<lambda>c. fst (snd c)) cs) = 8" using cs(2) by (simp add: CornerOffsets_def)
  ultimately have "CubeIndex isoLevel (map (\<lambda>c. fst (snd c)) cs) = 0"
    by (rule CubeIndex_all_above [rotated])
  then show ?thesis using assms(12) by (simp add: marchCube_def cs(1) bindE_Inr)
qed

lemma Rebuild_all_above:
  assumes "1 < CurrentSize c"
    and "int (length (Density c)) = CurrentSize c * CurrentSize c * CurrentSize c"
    and "int (length (Density c)) < 2147483648"
    and "\<forall>v\<in>set (Density c). \<not> v < CurrentIsoLevel c" and "edgeT 0 = 0"
  shows "RebuildMeshFromCurrentDensity edgeT triT c = Inr (c\<lparr>MeshSections := [emptySection]\<rparr>)"
proof -
  let ?S = "CurrentSize c" and ?D = "Density c"
  have S1: "1 \<le> ?S" and lt: "?S * ?S * ?S < 2147483648" using assms by auto
  obtain G where G: "computeGradients ?D ?S (CurrentScale c) = Inr G" "length G = length ?D"
    using computeGradients_in_range [OF S1 assms(2) lt] by blast
  have cube: "i32 (i32 (?S * ?S) * ?S) = ?S * ?S * ?S"
    by (rule i32_cube) (use assms(1) lt in auto)
  have mc: "marchCubes edgeT triT ?D G ?S (CurrentScale c) (CurrentIsoLevel c) = Inr emptySection"
    unfolding marchCubes_def emptySection_def [symmetric]
  proof (intro forE_fixed)
    fix z y x
    assume "z \<in> set [0..?S - 2]" "y \<in> set [0..?S - 2]" "x \<in> set [0..?S - 2]"
    then have r: "0 \<le> x" "x \<le> ?S - 2" "0 \<le> y" "y \<le> ?S - 2" "0 \<le> z" "z \<le> ?S - 2" by auto
    show "marchCube edgeT triT ?D G ?S (CurrentScale c) (CurrentIsoLevel c) z y x emptySection
        = Inr emptySection"
      by (rule marchCube_all_above [where edgeT = edgeT, OF assms(1,2) lt G(2) r assms(4,5)])
  qed
  show ?thesis
    using assms(1,2)
    by (simp add: RebuildMeshFromCurrentDensity_def Let_def cube G(1) mc bindE_Inr
        CreateMeshSection0_def ClearAllMeshSections_def)
qed


section \<open>\<^verbatim>\<open>DigAt\<close> against \<^verbatim>\<open>DigSphere\<close>\<close>






























section \<open>\<^verbatim>\<open>UpdateStreamedChunks\<close>: when an update does nothing\<close>

lemma forE_preserves:
  assumes "forE xs body s = Inr s'" "P s" "\<And>i t t'. body i t = Inr t' \<Longrightarrow> P t \<Longrightarrow> P t'"
  shows "P s'"
  using assms by (induction xs arbitrary: s) (auto split: sum.splits)

lemma fold_preserves:
  assumes "P s" "\<And>i t. P t \<Longrightarrow> P (f i t)"
  shows "P (fold f xs s)"
  using assms by (induction xs arbitrary: s) auto

lemma BuildDensityField_streamed:
  "BuildDensityField (\<lambda>p. 0) (NewChunk emptyWorld (cx, 0, 0)) 2 1 1 0 0
     = Inr ((NewChunk emptyWorld (cx, 0, 0))
              \<lparr>CurrentSize := 2, CurrentScale := 1, Density := [0, 0, 0, 0, 1, 1, 1, 1]\<rparr>)"
  by (simp add: BuildDensityField_def SetNum_def buildVoxel_def wr_def GetIndex_def i32_def
      NewChunk_def Let_def bindE_Inr bindE_Inl upto_0_1 replicate_8
      cong: bindE_weak_cong forE_weak_cong)


lemma Rebuild_streamed:
  "RebuildMeshFromCurrentDensity sampleEdgeTable sampleTriTable
     ((NewChunk emptyWorld (cx, 0, 0))
        \<lparr>CurrentSize := 2, CurrentScale := 1, Density := [0, 0, 0, 0, 1, 1, 1, 1]\<rparr>)
   = Inr (streamedChunk cx)"
proof -
  let ?c = "(NewChunk emptyWorld (cx, 0, 0))
        \<lparr>CurrentSize := 2, CurrentScale := 1, Density := [0, 0, 0, 0, 1, 1, 1, 1]\<rparr>"
  have "RebuildMeshFromCurrentDensity sampleEdgeTable sampleTriTable ?c
      = Inr (?c\<lparr>MeshSections := [emptySection]\<rparr>)"
    by (rule Rebuild_all_above) (simp_all add: NewChunk_def sampleEdgeTable_def)
  moreover have "?c\<lparr>MeshSections := [emptySection]\<rparr> = streamedChunk cx"
    by (simp add: NewChunk_def streamedChunk_def ChunkOffset_def emptyWorld_def vscale_def)
  ultimately show ?thesis by simp
qed

lemma createMissing_streamed:
  assumes "ChunkSize v = 2" "TerrainScale v = 1" "NoiseScale v = 1" "HeightBias v = 0"
    "NoiseStrength v = 0" "\<not> chunkExistsAt v (cx, 0, 0)"
  shows "createMissing sampleEngine (cx, 0, 0) v
     = Inr (v\<lparr>Objects := (Objects v)(NextObject v \<mapsto> streamedChunk cx),
              NextObject := Suc (NextObject v), Chunks := Chunks v @ [NextObject v]\<rparr>)"
proof -
  have nc: "NewChunk v (cx, 0, 0) = NewChunk emptyWorld (cx, 0, 0)"
    by (simp add: NewChunk_def ChunkOffset_def assms emptyWorld_def)
  show ?thesis
    using assms(6)
    by (simp add: createMissing_def nc assms(1-5) Let_def sampleEngine_def FileExists_def
        BuildDensityField_streamed Rebuild_streamed bindE_Inr)
qed

lemma first_update:
  "UpdateStreamedChunks sampleEngine emptyWorld (Some (FVector (19 / 10) 0 0)) = Inr streamedWorld1"
proof -
  have pc: "PlayerChunkCoords emptyWorld (FVector (19 / 10) 0 0) = Inr (1, 0, 0)"
    by (simp add: PlayerChunkCoords_def ChunkWorldSize_def emptyWorld_def vscale_def fdiv_def
        bindE_Inr FloorToInt_def)
  let ?w1 = "emptyWorld\<lparr>LastPlayerChunkCenter := FVector 1 0 0\<rparr>"
  have des: "DesiredChunks ?w1 (1, 0, 0) = [(1, 0, 0)]"
    by (simp add: DesiredChunks_def emptyWorld_def upto_0_0)
  have rem: "removeDistant [(1, 0, 0)] ?w1 = ?w1"
    by (simp add: removeDistant_def emptyWorld_def)
  have cm: "createMissing sampleEngine (1, 0, 0) ?w1 = Inr streamedWorld1"
    using createMissing_streamed [of ?w1 1]
    by (simp add: emptyWorld_def chunkExistsAt_def streamedWorld1_def)
  have cfg: "ChunkSize emptyWorld = 2" "TerrainScale emptyWorld = 1"
    "LastPlayerChunkCenter emptyWorld = FVector 0 0 0"
    by (simp_all add: emptyWorld_def)
  show ?thesis
    by (simp add: UpdateStreamedChunks_def pc bindE_Inr Let_def PlayerChunkCenter_def
        ChunkWorldSize_def vmul_def vscale_def cfg des rem cm Dist_def vsub_def SizeSquared_def)
qed


lemma second_update:
  "UpdateStreamedChunks sampleEngine streamedWorld1 (Some (FVector (21 / 10) 0 0)) = Inr streamedWorld2"
proof -
  have cfg: "ChunkSize streamedWorld1 = 2" "TerrainScale streamedWorld1 = 1"
    "LastPlayerChunkCenter streamedWorld1 = FVector 1 0 0"
    by (simp_all add: streamedWorld1_def emptyWorld_def)
  have pc: "PlayerChunkCoords streamedWorld1 (FVector (21 / 10) 0 0) = Inr (2, 0, 0)"
    by (simp add: PlayerChunkCoords_def ChunkWorldSize_def cfg vscale_def fdiv_def bindE_Inr
        FloorToInt_def)
  let ?w1 = "streamedWorld1\<lparr>LastPlayerChunkCenter := FVector 2 0 0\<rparr>"
  let ?w2 = "streamedWorld1\<lparr>LastPlayerChunkCenter := FVector 2 0 0,
                Objects := (Objects streamedWorld1)(0 := None), Chunks := []\<rparr>"
  have des: "DesiredChunks ?w1 (2, 0, 0) = [(2, 0, 0)]"
    by (simp add: DesiredChunks_def streamedWorld1_def emptyWorld_def upto_0_0)
  have rem: "removeDistant [(2, 0, 0)] ?w1 = ?w2"
    by (simp add: removeDistant_def removeDistantAt_def streamedWorld1_def emptyWorld_def
        streamedChunk_def Let_def)
  have cm: "createMissing sampleEngine (2, 0, 0) ?w2 = Inr streamedWorld2"
    using createMissing_streamed [of ?w2 2]
    by (simp add: streamedWorld1_def emptyWorld_def chunkExistsAt_def streamedWorld2_def)
  show ?thesis
    by (simp add: UpdateStreamedChunks_def pc bindE_Inr Let_def PlayerChunkCenter_def
        ChunkWorldSize_def vmul_def vscale_def cfg des rem cm Dist_def vsub_def SizeSquared_def)
qed

lemma sqrt_25th: "sqrt (1 / 25) = 1 / 5"
  by (rule real_sqrt_unique) (simp_all add: power2_eq_square)

text \<open>
  Claim C3 as stated fails. The world has chunk width 1 and no chunk. The observer stands at
  \<open>x = 1.9\<close> for the first update, which creates the chunk of cell \<open>(1, 0, 0)\<close>, and at
  \<open>x = 2.1\<close> for the second: a move of \<open>0.2\<close>, less than half a chunk width, but across a
  cell boundary. The second update destroys the chunk of cell \<open>(1, 0, 0)\<close> and creates the
  one of cell \<open>(2, 0, 0)\<close>.
\<close>

theorem Streaming_small_move_counterexample:
  "Dist (FVector (19 / 10) 0 0) (FVector (21 / 10) 0 0)
     < real_of_int (ChunkSize emptyWorld - 1) * TerrainScale emptyWorld / 2
   \<and> UpdateStreamedChunks sampleEngine emptyWorld (Some (FVector (19 / 10) 0 0)) = Inr streamedWorld1
   \<and> UpdateStreamedChunks sampleEngine streamedWorld1 (Some (FVector (21 / 10) 0 0)) = Inr streamedWorld2
   \<and> Chunks streamedWorld1 = [0] \<and> Objects streamedWorld1 0 = Some (streamedChunk 1)
   \<and> Objects streamedWorld1 1 = None
   \<and> Chunks streamedWorld2 = [1] \<and> Objects streamedWorld2 0 = None
   \<and> Objects streamedWorld2 1 = Some (streamedChunk 2)"
proof -
  have "Dist (FVector (19 / 10) 0 0) (FVector (21 / 10) 0 0) = 1 / 5"
    by (simp add: Dist_def vsub_def SizeSquared_def sqrt_25th)
  then show ?thesis
    by (simp add: first_update second_update)
       (simp add: streamedWorld1_def streamedWorld2_def emptyWorld_def)
qed


lemma Dist_self: "Dist a a = 0"
  by (simp add: Dist_def vsub_def SizeSquared_def)

lemma removeDistantAt_config:
  "ChunkSize (removeDistantAt Desired i v) = ChunkSize v
   \<and> TerrainScale (removeDistantAt Desired i v) = TerrainScale v
   \<and> LastPlayerChunkCenter (removeDistantAt Desired i v) = LastPlayerChunkCenter v"
  by (simp add: removeDistantAt_def Let_def split: option.splits)

lemma removeDistant_config:
  "ChunkSize (removeDistant Desired v) = ChunkSize v
   \<and> TerrainScale (removeDistant Desired v) = TerrainScale v
   \<and> LastPlayerChunkCenter (removeDistant Desired v) = LastPlayerChunkCenter v"
  unfolding removeDistant_def
  by (rule fold_preserves [where P = "\<lambda>t. ChunkSize t = ChunkSize v \<and> TerrainScale t = TerrainScale v
        \<and> LastPlayerChunkCenter t = LastPlayerChunkCenter v"])
     (simp_all add: removeDistantAt_config)

lemma createMissing_config:
  assumes "createMissing env Coords v = Inr v'"
  shows "ChunkSize v' = ChunkSize v \<and> TerrainScale v' = TerrainScale v
     \<and> LastPlayerChunkCenter v' = LastPlayerChunkCenter v"
proof (cases "chunkExistsAt v Coords")
  case True
  with assms show ?thesis by (simp add: createMissing_def)
next
  case False
  with assms show ?thesis
    by (auto simp: createMissing_def Let_def bindE_def split: sum.splits if_splits)
qed

lemma PlayerChunkCoords_config:
  assumes "ChunkSize v = ChunkSize w" "TerrainScale v = TerrainScale w"
  shows "PlayerChunkCoords v p = PlayerChunkCoords w p"
    and "PlayerChunkCenter v pc = PlayerChunkCenter w pc"
    and "ChunkWorldSize v = ChunkWorldSize w"
  unfolding PlayerChunkCoords_def PlayerChunkCenter_def ChunkWorldSize_def assms by (rule refl)+

lemma Update_early_return:
  assumes "PlayerChunkCoords w p = Inr pc"
    "Dist (PlayerChunkCenter w pc) (LastPlayerChunkCenter w) < X (ChunkWorldSize w) * (1 / 2)"
  shows "UpdateStreamedChunks env w (Some p) = Inr w"
  using assms by (simp add: UpdateStreamedChunks_def bindE_Inr)

lemma Update_same_cell:
  assumes pos: "0 < real_of_int (ChunkSize w - 1) * TerrainScale w"
    and same: "PlayerChunkCoords w p1 = PlayerChunkCoords w p2"
    and first: "UpdateStreamedChunks env w (Some p1) = Inr w1"
  shows "UpdateStreamedChunks env w1 (Some p2) = Inr w1"
proof -
  from first obtain pc where pc: "PlayerChunkCoords w p1 = Inr pc"
    by (cases "PlayerChunkCoords w p1") (auto simp: UpdateStreamedChunks_def bindE_Inl)
  have width: "0 < X (ChunkWorldSize w) * (1 / 2)"
    using pos by (simp add: ChunkWorldSize_def vscale_def mult.commute)
  show ?thesis
  proof (cases "Dist (PlayerChunkCenter w pc) (LastPlayerChunkCenter w) < X (ChunkWorldSize w) * (1 / 2)")
    case True
    then have "w1 = w" using first pc by (simp add: UpdateStreamedChunks_def bindE_Inr)
    then show ?thesis using Update_early_return [of w p2 pc env] same pc True by simp
  next
    case False
    let ?v1 = "w\<lparr>LastPlayerChunkCenter := PlayerChunkCenter w pc\<rparr>"
    let ?P = "\<lambda>t. ChunkSize t = ChunkSize w \<and> TerrainScale t = TerrainScale w
        \<and> LastPlayerChunkCenter t = PlayerChunkCenter w pc"
    from first pc False have run: "forE (DesiredChunks ?v1 pc) (createMissing env)
        (removeDistant (DesiredChunks ?v1 pc) ?v1) = Inr w1"
      by (simp add: UpdateStreamedChunks_def bindE_Inr Let_def)
    have "?P (removeDistant (DesiredChunks ?v1 pc) ?v1)"
      using removeDistant_config [of "DesiredChunks ?v1 pc" ?v1] by simp
    then have P1: "?P w1"
      by (rule forE_preserves [OF run]) (use createMissing_config in auto)
    have c: "PlayerChunkCoords w1 p2 = Inr pc" "PlayerChunkCenter w1 pc = PlayerChunkCenter w pc"
      "ChunkWorldSize w1 = ChunkWorldSize w"
      using PlayerChunkCoords_config [of w1 w] P1 same pc by auto
    show ?thesis
      by (rule Update_early_return [OF c(1)]) (use P1 c width in \<open>simp add: Dist_self\<close>)
  qed
qed


text \<open>
  Claim C3, amended. The hysteresis compares chunk cells, not positions: an update returns
  the world as it is whenever the origin of the observer's cell,
  \<open>floor (pos / chunkWorldSize) * chunkWorldSize\<close>, lies within half a chunk width of the one
  recorded last. So, for a positive chunk width, if the update is called twice and the
  observer is in the same cell at both calls, the second call creates no chunk and destroys
  no chunk: it returns the world the first call left.
\<close>

theorem Streaming_same_cell_noop:
  "(PlayerChunkCoords w p = Inr pc
      \<and> Dist (PlayerChunkCenter w pc) (LastPlayerChunkCenter w) < X (ChunkWorldSize w) * (1 / 2) \<longrightarrow>
      UpdateStreamedChunks env w (Some p) = Inr w)
   \<and> (0 < real_of_int (ChunkSize w - 1) * TerrainScale w
        \<and> PlayerChunkCoords w p1 = PlayerChunkCoords w p2
        \<and> UpdateStreamedChunks env w (Some p1) = Inr w1 \<longrightarrow>
      UpdateStreamedChunks env w1 (Some p2) = Inr w1)"
  using Update_early_return [of w p pc env] Update_same_cell [of w p1 p2 env w1] by blast

theorem Streaming_same_cell_noop_witness:
  "0 < real_of_int (ChunkSize emptyWorld - 1) * TerrainScale emptyWorld
   \<and> PlayerChunkCoords emptyWorld (FVector (19 / 10) 0 0)
       = PlayerChunkCoords emptyWorld (FVector (3 / 2) 0 0)
   \<and> UpdateStreamedChunks sampleEngine emptyWorld (Some (FVector (19 / 10) 0 0)) = Inr streamedWorld1
   \<and> UpdateStreamedChunks sampleEngine streamedWorld1 (Some (FVector (3 / 2) 0 0)) = Inr streamedWorld1"
proof -
  have a: "0 < real_of_int (ChunkSize emptyWorld - 1) * TerrainScale emptyWorld"
    by (simp add: emptyWorld_def)
  have b: "PlayerChunkCoords emptyWorld (FVector (19 / 10) 0 0)
       = PlayerChunkCoords emptyWorld (FVector (3 / 2) 0 0)"
    by (simp add: PlayerChunkCoords_def ChunkWorldSize_def emptyWorld_def vscale_def fdiv_def
        bindE_Inr FloorToInt_def)
  show ?thesis
    using Streaming_same_cell_noop [THEN conjunct2, of emptyWorld "FVector (19 / 10) 0 0"
        "FVector (3 / 2) 0 0" sampleEngine streamedWorld1] a b first_update
    by blast
qed

section \<open>Full-grid generation: one pass at a time?\<close>

text \<open>
  \<^verbatim>\<open>OnConstruction\<close> honours the flag: while a generation is in flight it returns the world as
  it is.
\<close>

lemma OnConstruction_while_generating:
  "bIsGenerating w \<Longrightarrow> OnConstruction env w = Inr w"
  by (simp add: OnConstruction_def)

lemma OnConstruction_gridWorld:
  "OnConstruction sampleEngine gridWorld = Inr generatingWorld"
proof -
  let ?w1 = "(destroyChunks gridWorld)\<lparr>bIsGenerating := True, CompletedChunks := 0\<rparr>"
  let ?w2 = "gridWorld\<lparr>Chunks := [0], bIsGenerating := True,
               Objects := (Objects gridWorld)(0 \<mapsto> NewChunk gridWorld (0, 0, 0)),
               NextObject := Suc 0\<rparr>"
  have grid: "createGrid ?w1 = ?w2"
    by (simp add: createGrid_def createGridChunk_def upto_0_0 destroyChunks_def gridWorld_def
        NewChunk_def ChunkOffset_def)
  have load: "loadExisting sampleEngine 0 (?w2, False) = Inr (?w2, False)"
    by (simp add: loadExisting_def Let_def FileExists_def sampleEngine_def)
  have gen: "GenerateAllChunks ?w2 = generatingWorld"
    by (simp add: GenerateAllChunks_def generatingWorld_def) (simp add: gridWorld_def)
  have ng: "\<not> bIsGenerating gridWorld" by (simp add: gridWorld_def)
  show ?thesis
    by (simp add: OnConstruction_def ng Let_def grid load bindE_Inr gen)
qed

lemma BeginPlay_generatingWorld:
  "BeginPlay sampleEngine generatingWorld
     = Inr (generatingWorld\<lparr>PersistentChunks := [0], PoolTasks := [0, 0]\<rparr>)"
  by (simp add: BeginPlay_def generatingWorld_def Let_def FileExists_def sampleEngine_def
      GenerateAllChunks_def bindE_Inr)

text \<open>
  Claim C4 on the \<^verbatim>\<open>BeginPlay\<close> path. A grid of one chunk with no saved file is constructed:
  the world is generating and one density job for the chunk waits in the pool. \<^verbatim>\<open>BeginPlay\<close>
  arrives before that job has run. It does not look at \<open>bIsGenerating\<close>: it calls
  \<^verbatim>\<open>GenerateAllChunks\<close> again, and a second density job for the same chunk waits beside the
  first while the world is still generating. A second \<^verbatim>\<open>OnConstruction\<close> in its place would
  have been rejected.
\<close>

theorem BeginPlay_starts_second_pass:
  "run sampleEngine [EvOnConstruction] gridWorld = Inr generatingWorld
   \<and> bIsGenerating generatingWorld \<and> PoolTasks generatingWorld = [0]
   \<and> run sampleEngine [EvOnConstruction, EvBeginPlay] gridWorld
       = Inr (generatingWorld\<lparr>PersistentChunks := [0], PoolTasks := [0, 0]\<rparr>)
   \<and> run sampleEngine [EvOnConstruction, EvOnConstruction] gridWorld = Inr generatingWorld"
proof -
  have g: "bIsGenerating generatingWorld" "PoolTasks generatingWorld = [0]"
    by (simp_all add: generatingWorld_def)
  show ?thesis
    by (simp add: run_def OnConstruction_gridWorld BeginPlay_generatingWorld
        OnConstruction_while_generating g)
qed

section \<open>The normals of the mesh\<close>

text \<open>
  \<^verbatim>\<open>AddNormal\<close> normalizes its candidate and falls back to the flat face normal of the triangle
  only when that fails; the face normal itself comes from \<^verbatim>\<open>GetSafeNormal\<close>, which gives a unit
  vector or the zero vector.
\<close>

lemma SizeSquared_vscale: "SizeSquared (vscale s a) = s * s * SizeSquared a"
  by (simp add: SizeSquared_def vscale_def algebra_simps)

lemma normalized_unit:
  assumes "0 < SizeSquared a"
  shows "SizeSquared (vscale (1 / sqrt (SizeSquared a)) a) = 1"
proof -
  have "sqrt (SizeSquared a) * sqrt (SizeSquared a) = SizeSquared a"
    using assms by simp
  then have "(1 / sqrt (SizeSquared a)) * (1 / sqrt (SizeSquared a)) * SizeSquared a = 1"
    using assms by simp
  then show ?thesis by (simp only: SizeSquared_vscale)
qed

lemma GetSafeNormal_unit_or_zero:
  "SizeSquared (GetSafeNormal a) = 1 \<or> GetSafeNormal a = ZeroVector"
proof -
  have "SizeSquared (vscale (1 / sqrt (SizeSquared a)) a) = 1"
    if "\<not> SizeSquared a < SMALL_NUMBER"
    by (rule normalized_unit) (use that in \<open>simp add: SMALL_NUMBER_def\<close>)
  then show ?thesis by (auto simp: GetSafeNormal_def Let_def)
qed

lemma AddNormal_cases:
  "AddNormal F cand
     = (if SMALL_NUMBER < SizeSquared cand then vscale (1 / sqrt (SizeSquared cand)) cand else F)"
  by (simp add: AddNormal_def Normalize_def Let_def)

lemma AddNormal_unit:
  assumes "SMALL_NUMBER < SizeSquared cand \<or> SizeSquared F = 1"
  shows "SizeSquared (AddNormal F cand) = 1"
proof (cases "SMALL_NUMBER < SizeSquared cand")
  case True
  then have "0 < SizeSquared cand" by (simp add: SMALL_NUMBER_def)
  then show ?thesis using True by (simp add: AddNormal_cases normalized_unit)
next
  case False
  then show ?thesis using assms by (simp add: AddNormal_cases)
qed

lemma AddNormal_unit_or_zero:
  "SizeSquared (AddNormal (GetSafeNormal x) cand) = 1 \<or> AddNormal (GetSafeNormal x) cand = ZeroVector"
proof (cases "SMALL_NUMBER < SizeSquared cand")
  case True
  then show ?thesis using AddNormal_unit [of cand] by simp
next
  case False
  then show ?thesis using GetSafeNormal_unit_or_zero [of x] by (simp add: AddNormal_cases)
qed


lemma emitTriangle_normals:
  assumes "\<forall>n\<in>set (Normals m). unitOrZero n"
  shows "\<forall>n\<in>set (Normals (emitTriangle r0 r1 r2 m)). unitOrZero n"
  using assms AddNormal_unit_or_zero
  by (auto simp: emitTriangle_def Let_def unitOrZero_def)

lemma emitTriangles_normals:
  assumes "emitTriangles vl row m = Inr m'" "\<forall>n\<in>set (Normals m). unitOrZero n"
  shows "\<forall>n\<in>set (Normals m'). unitOrZero n"
  using assms
proof (induction vl row m rule: emitTriangles.induct)
  case (4 vertList a b c row m)
  show ?case
  proof (cases "a = - 1")
    case True
    with 4 show ?thesis by simp
  next
    case False
    with "4.prems"(1) obtain r0 r1 r2 where r: "vertAt vertList a = Inr r0"
        "vertAt vertList b = Inr r1" "vertAt vertList c = Inr r2"
        "emitTriangles vertList row (emitTriangle r0 r1 r2 m) = Inr m'"
      by (auto simp: bindE_def split: sum.splits)
    show ?thesis
      by (rule "4.IH" [OF False r(4)]) (rule emitTriangle_normals [OF "4.prems"(2)])
  qed
qed (auto split: if_splits)

lemma marchCube_normals:
  assumes "marchCube edgeT triT D G S sc isoLevel z y x m = Inr m'"
    "\<forall>n\<in>set (Normals m). unitOrZero n"
  shows "\<forall>n\<in>set (Normals m'). unitOrZero n"
proof -
  from assms(1) obtain cs where cs: "mapE (fetchCorner D G S sc x y z) CornerOffsets = Inr cs"
    by (cases "mapE (fetchCorner D G S sc x y z) CornerOffsets")
       (auto simp: marchCube_def bindE_Inl)
  let ?ci = "CubeIndex isoLevel (map (\<lambda>c. fst (snd c)) cs)"
  show ?thesis
  proof (cases "edgeT ?ci = 0")
    case True
    with assms cs show ?thesis by (simp add: marchCube_def bindE_Inr)
  next
    case False
    with assms(1) cs obtain vl where "buildVertList isoLevel (edgeT ?ci) cs = Inr vl"
        "emitTriangles vl (triT ?ci) m = Inr m'"
      by (cases "buildVertList isoLevel (edgeT ?ci) cs")
         (auto simp: marchCube_def bindE_Inr bindE_Inl Let_def)
    then show ?thesis using emitTriangles_normals assms(2) by blast
  qed
qed

lemma marchCubes_normals:
  assumes "marchCubes edgeT triT D G S sc isoLevel = Inr m"
  shows "\<forall>n\<in>set (Normals m). unitOrZero n"
proof -
  let ?P = "\<lambda>m. \<forall>n\<in>set (Normals m). unitOrZero n"
  have x: "?P t'" if "forE xs (\<lambda>x. marchCube edgeT triT D G S sc isoLevel z y x) t = Inr t'" "?P t"
    for xs z y t t'
    by (rule forE_preserves [where P = ?P, OF that]) (rule marchCube_normals)
  have y: "?P t'"
    if "forE ys (\<lambda>y. forE xs (\<lambda>x. marchCube edgeT triT D G S sc isoLevel z y x)) t = Inr t'" "?P t"
    for xs ys z t t'
    by (rule forE_preserves [where P = ?P, OF that]) (rule x)
  show ?thesis
    by (rule forE_preserves [where P = ?P, OF assms [unfolded marchCubes_def]]) (simp, rule y)
qed

lemma Rebuild_normals:
  assumes "RebuildMeshFromCurrentDensity edgeT triT c = Inr c'"
  shows "\<forall>m\<in>set (MeshSections c'). \<forall>n\<in>set (Normals m). unitOrZero n"
proof (cases "CurrentSize c \<le> 1 \<or> int (length (Density c))
    \<noteq> i32 (i32 (CurrentSize c * CurrentSize c) * CurrentSize c)")
  case True
  with assms show ?thesis
    by (auto simp: RebuildMeshFromCurrentDensity_def Let_def ClearAllMeshSections_def)
next
  case False
  with assms obtain G m where
      "marchCubes edgeT triT (Density c) G (CurrentSize c) (CurrentScale c) (CurrentIsoLevel c) = Inr m"
      "c' = CreateMeshSection0 m (ClearAllMeshSections c)"
    by (auto simp: RebuildMeshFromCurrentDensity_def Let_def bindE_def split: sum.splits)
  then show ?thesis
    using marchCubes_normals
    by (auto simp: CreateMeshSection0_def ClearAllMeshSections_def)
qed


lemma GetSafeNormal_small: "SizeSquared a < SMALL_NUMBER \<Longrightarrow> GetSafeNormal a = ZeroVector"
  by (simp add: GetSafeNormal_def SMALL_NUMBER_def)

lemma GetSafeNormal_one: "SizeSquared a = 1 \<Longrightarrow> GetSafeNormal a = a"
  by (simp add: GetSafeNormal_def)

lemma Rebuild_degenerateChunk:
  "RebuildMeshFromCurrentDensity sampleEdgeTable sampleTriTable degenerateChunk
     = Inr (degenerateChunk\<lparr>MeshSections :=
              [\<lparr>Vertices = [FVector 0 0 0, FVector 0 0 0, FVector 0 0 0], Triangles = [0, 1, 2],
                Normals = [FVector 0 0 0, FVector 0 0 0, FVector 0 0 0]\<rparr>]\<rparr>)"
  by (simp add: degenerateChunk_def RebuildMeshFromCurrentDensity_def computeGradients_def
      gradientVoxel_def SampleDensity_def Clamp_def wr_def IsNearlyZero_def marchCubes_def
      marchCube_def CubeIndex_def sampleEdgeTable_def sampleTriTable_def buildVertList_def
      EdgeCorners_def VertexInterp_def KINDA_SMALL_NUMBER_def vertAt_def emitTriangle_def
      AddNormal_def Normalize_def CrossProduct_def vsub_def CreateMeshSection0_def
      ClearAllMeshSections_def CornerOffsets_def GetIndex_def i32_def rd_def Let_def bindE_Inr
      bindE_Inl GetSafeNormal_small SizeSquared_def SMALL_NUMBER_def ZeroVector_def upto_0_1
      upto_0_0 replicate_8
      cong: bindE_weak_cong forE_weak_cong mapE_weak_cong)


lemma Rebuild_slopeChunk:
  "RebuildMeshFromCurrentDensity sampleEdgeTable sampleTriTable slopeChunk
     = Inr (slopeChunk\<lparr>MeshSections :=
              [\<lparr>Vertices = [FVector 1 0 (1 / 2), FVector 0 0 (1 / 2), FVector 1 1 (1 / 2),
                             FVector 1 1 (1 / 2), FVector 0 0 (1 / 2), FVector 0 1 (1 / 2)],
                Triangles = [0, 1, 2, 3, 4, 5],
                Normals = [FVector 0 0 1, FVector 0 0 1, FVector 0 0 1,
                           FVector 0 0 1, FVector 0 0 1, FVector 0 0 1]\<rparr>]\<rparr>)"
  by (simp add: slopeChunk_def RebuildMeshFromCurrentDensity_def computeGradients_def
      gradientVoxel_def SampleDensity_def Clamp_def wr_def IsNearlyZero_def marchCubes_def
      marchCube_def CubeIndex_def sampleEdgeTable_def sampleTriTable_def buildVertList_def
      EdgeCorners_def VertexInterp_def KINDA_SMALL_NUMBER_def fdiv_def vertAt_def emitTriangle_def
      AddNormal_def Normalize_def CrossProduct_def vsub_def vadd_def vscale_def
      CreateMeshSection0_def ClearAllMeshSections_def CornerOffsets_def GetIndex_def i32_def rd_def
      Let_def bindE_Inr bindE_Inl GetSafeNormal_one SizeSquared_def SMALL_NUMBER_def
      ZeroVector_def upto_0_1 upto_0_0 replicate_8
      cong: bindE_weak_cong forE_weak_cong mapE_weak_cong)


lemma VertexInterp_blend_fails:
  assumes "\<not> \<bar>isoLevel - valp1\<bar> < KINDA_SMALL_NUMBER" "\<not> \<bar>isoLevel - valp2\<bar> < KINDA_SMALL_NUMBER"
    "\<not> \<bar>valp1 - valp2\<bar> < KINDA_SMALL_NUMBER"
    "\<not> SMALL_NUMBER
        < SizeSquared (vadd n1 (vscale ((isoLevel - valp1) / (valp2 - valp1)) (vsub n2 n1)))"
  shows "\<exists>r. VertexInterp isoLevel p1 p2 valp1 valp2 n1 n2 = Inr r \<and> Normal r = UpVector
     \<and> AddNormal F (Normal r) = UpVector"
proof -
  have ne: "valp2 - valp1 \<noteq> 0" using assms(3) by (auto simp: KINDA_SMALL_NUMBER_def)
  have up: "AddNormal F UpVector = UpVector"
    by (simp add: AddNormal_cases UpVector_def SizeSquared_def SMALL_NUMBER_def vscale_def)
  show ?thesis
    using assms ne up
    by (simp add: VertexInterp_def fdiv_def bindE_Inr Let_def Normalize_def)
qed

text \<open>
  Claim C2 says that a blend that cannot be normalized makes the vertex fall back to the flat
  face normal of its triangle, and that every emitted normal has unit length. Two evaluations
  show otherwise. The rebuild of \<open>degenerateChunk\<close> succeeds and emits one triangle whose three
  normals are the zero vector, of length \<open>0\<close>: the candidate normals are zero, so is the face
  normal of the collapsed triangle, and \<^verbatim>\<open>AddNormal\<close> stores it. And on an edge whose end normals
  \<open>(0, 1, 0)\<close> and \<open>(0, -1, 0)\<close> cancel at the midpoint, \<^verbatim>\<open>VertexInterp\<close> returns the up vector
  \<open>(0, 0, 1)\<close>, which \<^verbatim>\<open>AddNormal\<close> keeps for a triangle whose face normal is \<open>(1, 0, 0)\<close>.
\<close>

theorem Normals_counterexample:
  "RebuildMeshFromCurrentDensity sampleEdgeTable sampleTriTable degenerateChunk
     = Inr (degenerateChunk\<lparr>MeshSections :=
              [\<lparr>Vertices = [FVector 0 0 0, FVector 0 0 0, FVector 0 0 0], Triangles = [0, 1, 2],
                Normals = [FVector 0 0 0, FVector 0 0 0, FVector 0 0 0]\<rparr>]\<rparr>)
   \<and> SizeSquared (FVector 0 0 0) = 0
   \<and> VertexInterp 0 (FVector 0 0 0) (FVector 1 0 0) (- 1) 1 (FVector 0 1 0) (FVector 0 (- 1) 0)
       = Inr \<lparr>Position = FVector (1 / 2) 0 0, Normal = FVector 0 0 1\<rparr>
   \<and> AddNormal (FVector 1 0 0) (FVector 0 0 1) = FVector 0 0 1"
proof -
  have vi: "VertexInterp 0 (FVector 0 0 0) (FVector 1 0 0) (- 1) 1 (FVector 0 1 0) (FVector 0 (- 1) 0)
       = Inr \<lparr>Position = FVector (1 / 2) 0 0, Normal = FVector 0 0 1\<rparr>"
    by (simp add: VertexInterp_def KINDA_SMALL_NUMBER_def fdiv_def bindE_Inr Let_def Normalize_def
        vadd_def vscale_def vsub_def SizeSquared_def SMALL_NUMBER_def UpVector_def)
  have an: "AddNormal (FVector 1 0 0) (FVector 0 0 1) = FVector 0 0 1"
    by (simp add: AddNormal_cases SizeSquared_def SMALL_NUMBER_def vscale_def)
  show ?thesis
    by (simp add: Rebuild_degenerateChunk vi an) (simp add: SizeSquared_def)
qed

text \<open>
  Claim C2, as the code has it. Every normal of a mesh that
  \<^verbatim>\<open>RebuildMeshFromCurrentDensity\<close> builds has unit length or is the zero vector.
  \<^verbatim>\<open>AddNormal\<close> emits the normalized candidate when the candidate can be normalized and the
  flat face normal otherwise, so the emitted normal has unit length whenever the candidate can
  be normalized or the face normal is a unit vector. When no tie-break of \<^verbatim>\<open>VertexInterp\<close>
  applies and the blended normal cannot be normalized, the vertex gets the up vector
  \<open>(0, 0, 1)\<close>, whatever the face normal of its triangle is.
\<close>

theorem Emitted_normals:
  "(RebuildMeshFromCurrentDensity edgeT triT c = Inr c' \<longrightarrow>
      (\<forall>m\<in>set (MeshSections c'). \<forall>n\<in>set (Normals m). SizeSquared n = 1 \<or> n = ZeroVector))
   \<and> AddNormal F cand
       = (if SMALL_NUMBER < SizeSquared cand then vscale (1 / sqrt (SizeSquared cand)) cand else F)
   \<and> (SMALL_NUMBER < SizeSquared cand \<or> SizeSquared F = 1 \<longrightarrow> SizeSquared (AddNormal F cand) = 1)
   \<and> (\<not> \<bar>isoLevel - valp1\<bar> < KINDA_SMALL_NUMBER \<and> \<not> \<bar>isoLevel - valp2\<bar> < KINDA_SMALL_NUMBER
        \<and> \<not> \<bar>valp1 - valp2\<bar> < KINDA_SMALL_NUMBER
        \<and> \<not> SMALL_NUMBER
              < SizeSquared (vadd n1 (vscale ((isoLevel - valp1) / (valp2 - valp1)) (vsub n2 n1))) \<longrightarrow>
      (\<exists>r. VertexInterp isoLevel p1 p2 valp1 valp2 n1 n2 = Inr r \<and> Normal r = UpVector
          \<and> AddNormal F (Normal r) = UpVector))"
proof (intro conjI impI)
  assume "RebuildMeshFromCurrentDensity edgeT triT c = Inr c'"
  from Rebuild_normals [OF this]
  show "\<forall>m\<in>set (MeshSections c'). \<forall>n\<in>set (Normals m). SizeSquared n = 1 \<or> n = ZeroVector"
    by (simp add: unitOrZero_def)
next
  show "AddNormal F cand
       = (if SMALL_NUMBER < SizeSquared cand then vscale (1 / sqrt (SizeSquared cand)) cand else F)"
    by (rule AddNormal_cases)
next
  assume "SMALL_NUMBER < SizeSquared cand \<or> SizeSquared F = 1"
  then show "SizeSquared (AddNormal F cand) = 1" by (rule AddNormal_unit)
next
  assume "\<not> \<bar>isoLevel - valp1\<bar> < KINDA_SMALL_NUMBER \<and> \<not> \<bar>isoLevel - valp2\<bar> < KINDA_SMALL_NUMBER
        \<and> \<not> \<bar>valp1 - valp2\<bar> < KINDA_SMALL_NUMBER
        \<and> \<not> SMALL_NUMBER
              < SizeSquared (vadd n1 (vscale ((isoLevel - valp1) / (valp2 - valp1)) (vsub n2 n1)))"
  then show "\<exists>r. VertexInterp isoLevel p1 p2 valp1 valp2 n1 n2 = Inr r \<and> Normal r = UpVector
          \<and> AddNormal F (Normal r) = UpVector"
    by (intro VertexInterp_blend_fails) simp_all
qed

theorem Emitted_normals_witness:
  "RebuildMeshFromCurrentDensity sampleEdgeTable sampleTriTable slopeChunk
     = Inr (slopeChunk\<lparr>MeshSections :=
              [\<lparr>Vertices = [FVector 1 0 (1 / 2), FVector 0 0 (1 / 2), FVector 1 1 (1 / 2),
                             FVector 1 1 (1 / 2), FVector 0 0 (1 / 2), FVector 0 1 (1 / 2)],
                Triangles = [0, 1, 2, 3, 4, 5],
                Normals = [FVector 0 0 1, FVector 0 0 1, FVector 0 0 1,
                           FVector 0 0 1, FVector 0 0 1, FVector 0 0 1]\<rparr>]\<rparr>)
   \<and> (SizeSquared (FVector 0 0 1) = 1 \<or> FVector 0 0 1 = ZeroVector)"
  using Emitted_normals [THEN conjunct1, of sampleEdgeTable sampleTriTable slopeChunk
      "slopeChunk\<lparr>MeshSections :=
              [\<lparr>Vertices = [FVector 1 0 (1 / 2), FVector 0 0 (1 / 2), FVector 1 1 (1 / 2),
                             FVector 1 1 (1 / 2), FVector 0 0 (1 / 2), FVector 0 1 (1 / 2)],
                Triangles = [0, 1, 2, 3, 4, 5],
                Normals = [FVector 0 0 1, FVector 0 0 1, FVector 0 0 1,
                           FVector 0 0 1, FVector 0 0 1, FVector 0 0 1]\<rparr>]\<rparr>"]
    Rebuild_slopeChunk
  by simp

end
